theory Spec2Isabelle
  imports Main
begin

section \<open>Outcomes of a call\<close>

text \<open>
  A Go call either returns a value or panics (a nil dereference, a failed type assertion,
  a \<open>reflect\<close> method used on a value of the wrong kind). Both are values of the model.
\<close>

datatype 'a outcome = Panics | Returns 'a

section \<open>The part of \<open>reflect\<close> the validator uses\<close>

datatype Kind =
    Invalid | Bool | Int | Int8 | Int16 | Int32 | Int64
  | Uint | Uint8 | Uint16 | Uint32 | Uint64 | Uintptr
  | Float32 | Float64 | Complex64 | Complex128
  | Array | Chan | Func | Interface | Map | Ptr | Slice | String | Struct | UnsafePointer

text \<open>
  A struct tag is kept in parsed form, as the list of its \<open>key:"value"\<close> pairs;
  \<open>Tag.Get\<close> returns the empty string for a key that is absent.
\<close>

type_synonym StructTag = "(string \<times> string) list"

record StructField =
  sf_Name :: string
  sf_Tag :: StructTag

definition zeroStructField :: StructField where
  "zeroStructField = \<lparr>sf_Name = [], sf_Tag = []\<rparr>"

definition Tag_Get :: "StructTag \<Rightarrow> string \<Rightarrow> string" where
  "Tag_Get tag key = (case map_of tag key of None \<Rightarrow> [] | Some v \<Rightarrow> v)"

text \<open>
  Types carry what the validator reads from them: the kind, the fields of a struct with
  their tags, the element type of a pointer, slice or array, and the printed name of the
  types whose name is not built from those of their parts. \<open>BasicT k n\<close> stands for a
  type of any kind \<open>k\<close> that has no constructor of its own here.
\<close>

datatype Type =
    BasicT Kind string
  | StructT string "StructField list"
  | PtrT Type
  | SliceT Type
  | ArrayT nat Type
  | InterfaceT string

text \<open>
  Values. \<open>NilV\<close> is the nil interface value, and also the zero \<open>reflect.Value\<close>
  that \<open>reflect.ValueOf(nil)\<close> and a failed \<open>FieldByName\<close> return. A struct value
  lists its fields in declaration order (structs without embedded fields). A pointer holds
  the type it points to, and its target unless it is nil. \<open>InterfaceV\<close> is a
  \<open>reflect.Value\<close> of kind Interface: a struct field whose declared type is an interface.
\<close>

datatype "Value" =
    NilV
  | StringV string
  | BasicV Kind string
  | StructV string "(StructField \<times> Value) list"
  | PtrV Type "Value option"
  | SliceV Type "Value list"
  | ArrayV Type "Value list"
  | InterfaceV string "Value"

fun Type_Kind :: "Type \<Rightarrow> Kind" where
  "Type_Kind (BasicT k n) = k"
| "Type_Kind (StructT n fs) = Struct"
| "Type_Kind (PtrT t) = Ptr"
| "Type_Kind (SliceT t) = Slice"
| "Type_Kind (ArrayT n t) = Array"
| "Type_Kind (InterfaceT n) = Interface"

text \<open>\<open>reflect.TypeOf\<close>: the nil interface has no type (\<open>None\<close> is the nil \<open>Type\<close>).\<close>

fun TypeOf :: "Value \<Rightarrow> Type option" where
  "TypeOf NilV = None"
| "TypeOf (StringV s) = Some (BasicT String ''string'')"
| "TypeOf (BasicV k n) = Some (BasicT k n)"
| "TypeOf (StructV n fs) = Some (StructT n (map fst fs))"
| "TypeOf (PtrV t p) = Some (PtrT t)"
| "TypeOf (SliceV t xs) = Some (SliceT t)"
| "TypeOf (ArrayV t xs) = Some (ArrayT (length xs) t)"
| "TypeOf (InterfaceV n v) = Some (InterfaceT n)"

text \<open>\<open>Type.Elem\<close> panics unless the kind has an element type.\<close>

fun Type_Elem :: "Type \<Rightarrow> Type outcome" where
  "Type_Elem (PtrT t) = Returns t"
| "Type_Elem (SliceT t) = Returns t"
| "Type_Elem (ArrayT n t) = Returns t"
| "Type_Elem t = Panics"

text \<open>
  \<open>Type.FieldByName\<close> panics on a type that is not a struct; on a struct it returns the
  field of that name, or the zero \<open>StructField\<close> (and \<open>false\<close>, which the validator
  drops) when there is none.
\<close>

fun Type_FieldByName :: "Type \<Rightarrow> string \<Rightarrow> StructField outcome" where
  "Type_FieldByName (StructT n fs) name =
     (case find (\<lambda>f. sf_Name f = name) fs of
        None \<Rightarrow> Returns zeroStructField
      | Some f \<Rightarrow> Returns f)"
| "Type_FieldByName t name = Panics"

text \<open>\<open>Value.Kind\<close>: the zero Value has kind Invalid.\<close>

definition Value_Kind :: "Value \<Rightarrow> Kind" where
  "Value_Kind v = (case TypeOf v of None \<Rightarrow> Invalid | Some t \<Rightarrow> Type_Kind t)"

text \<open>
  \<open>Value.Elem\<close>: the target of a pointer or the content of an interface, the zero
  Value for a nil pointer, a panic for any other kind.
\<close>

fun Value_Elem :: "Value \<Rightarrow> Value outcome" where
  "Value_Elem (PtrV t None) = Returns NilV"
| "Value_Elem (PtrV t (Some v)) = Returns v"
| "Value_Elem (InterfaceV n v) = Returns v"
| "Value_Elem v = Panics"

text \<open>
  \<open>Value.FieldByName\<close>: panics unless the value is a struct; returns the zero Value
  when the struct has no field of that name.
\<close>

fun Value_FieldByName :: "Value \<Rightarrow> string \<Rightarrow> Value outcome" where
  "Value_FieldByName (StructV n fs) name =
     (case find (\<lambda>fv. sf_Name (fst fv) = name) fs of
        None \<Rightarrow> Returns NilV
      | Some fv \<Rightarrow> Returns (snd fv))"
| "Value_FieldByName v name = Panics"

text \<open>\<open>Value.Len\<close> and the elements \<open>Index(i).Interface()\<close> of a slice or array.\<close>

fun Value_elements :: "Value \<Rightarrow> Value list outcome" where
  "Value_elements (SliceV t xs) = Returns xs"
| "Value_elements (ArrayV t xs) = Returns xs"
| "Value_elements v = Panics"

text \<open>The decimal form of a number, for the printed name of an array type.\<close>

fun string_of_nat :: "nat \<Rightarrow> string" where
  "string_of_nat n =
     (if n < 10 then [''0123456789'' ! n]
      else string_of_nat (n div 10) @ [''0123456789'' ! (n mod 10)])"

declare string_of_nat.simps [simp del]

fun Type_String :: "Type \<Rightarrow> string" where
  "Type_String (BasicT k n) = n"
| "Type_String (StructT n fs) = n"
| "Type_String (PtrT t) = ''*'' @ Type_String t"
| "Type_String (SliceT t) = ''[]'' @ Type_String t"
| "Type_String (ArrayT n t) = ''['' @ string_of_nat n @ '']'' @ Type_String t"
| "Type_String (InterfaceT n) = n"

text \<open>
  \<open>Value.String\<close> never panics: it is the content of a string, \<open><invalid Value>\<close> for
  the zero Value, and \<open><T Value>\<close> for a value of any other type \<open>T\<close>.
\<close>

definition Value_String :: "Value \<Rightarrow> string" where
  "Value_String v =
     (case v of
        StringV s \<Rightarrow> s
      | _ \<Rightarrow> (case TypeOf v of
                None \<Rightarrow> ''<invalid Value>''
              | Some t \<Rightarrow> ''<'' @ Type_String t @ '' Value>''))"

section \<open>The part of \<open>strings\<close> the validator uses\<close>

text \<open>
  \<open>strings.Split\<close> with a separator of one byte, which is what every call of the
  validator passes: the pieces between the separators, at least one piece.
\<close>

fun Split :: "string \<Rightarrow> char \<Rightarrow> string list" where
  "Split [] sep = [[]]"
| "Split (c # cs) sep =
     (if c = sep then [] # Split cs sep
      else (case Split cs sep of
              [] \<Rightarrow> [[c]]
            | p # ps \<Rightarrow> (c # p) # ps))"

fun Join :: "string list \<Rightarrow> string \<Rightarrow> string" where
  "Join [] sep = []"
| "Join [x] sep = x"
| "Join (x # y # ys) sep = x @ sep @ Join (y # ys) sep"

definition HasPrefix :: "string \<Rightarrow> string \<Rightarrow> bool" where
  "HasPrefix s pre = (take (length pre) s = pre)"

section \<open>Problem values\<close>

text \<open>
  A \<open>problem.Problem\<close> is a map from attribute names to values; \<open>problem.New\<close> and
  \<open>Append\<close> apply their options in order, and the options \<open>Status\<close>, \<open>Title\<close> and
  \<open>Custom\<close> each set one attribute.
\<close>

record InvalidParam =
  Name :: string
  Reason :: string

datatype Attr = IntAttr int | StringAttr string | InvalidParamsAttr "InvalidParam list"

type_synonym Problem = "string \<rightharpoonup> Attr"

type_synonym Option = "Problem \<Rightarrow> Problem"

definition Status :: "int \<Rightarrow> Option" where
  "Status status = (\<lambda>p. p(''status'' \<mapsto> IntAttr status))"

definition Title :: "string \<Rightarrow> Option" where
  "Title title = (\<lambda>p. p(''title'' \<mapsto> StringAttr title))"

definition Custom :: "string \<Rightarrow> Attr \<Rightarrow> Option" where
  "Custom key v = (\<lambda>p. p(key \<mapsto> v))"

definition Append :: "Problem \<Rightarrow> Option list \<Rightarrow> Problem" where
  "Append p opts = fold (\<lambda>opt q. opt q) opts p"

definition New :: "Option list \<Rightarrow> Problem" where
  "New opts = Append Map.empty opts"

definition StatusBadRequest :: int where
  "StatusBadRequest = 400"

text \<open>
  The \<open>error\<close> interface as \<open>Validate\<close> returns it: nil, or a \<open>*problem.Problem\<close>,
  which is itself a pointer and may be nil.
\<close>

datatype error = NilError | ProblemError "Problem option"

section \<open>The part of \<open>time\<close> the validator uses\<close>

text \<open>
  A \<open>time.Time\<close> is an instant, kept as the seconds since January 1 of year 1, 00:00:00
  UTC and the nanoseconds within that second, together with a location. \<open>UTC()\<close> changes
  the location only, and \<open>Before\<close> compares instants.
\<close>

datatype Location = UTC | FixedZone int

record Time =
  abs_sec :: int
  nsec :: int
  loc :: Location

definition Time_UTC :: "Time \<Rightarrow> Time" where
  "Time_UTC t = t\<lparr>loc := UTC\<rparr>"

definition Before :: "Time \<Rightarrow> Time \<Rightarrow> bool" where
  "Before t u = (abs_sec t < abs_sec u \<or> (abs_sec t = abs_sec u \<and> nsec t < nsec u))"

text \<open>
  \<open>time.Parse\<close>, following the parser of the Go standard library (its version with
  range checks on zone offsets and with the comma accepted as decimal mark) on the layout
  elements that occur in \<open>layouts\<close> below: a four-digit year, two-digit month, day, minute
  and second, an hour of one or two digits, a fraction of a fixed number of digits, the
  zone \<open>Z07:00\<close>, and literal text. Every failure of the parser is \<open>None\<close>. (For the
  RFC 3339 layout Go tries a dedicated parser first and falls back to this one; it accepts
  some of the same strings, with the same result.)
\<close>

definition isDigit :: "char \<Rightarrow> bool" where
  "isDigit c = (c \<in> set ''0123456789'')"

definition digitVal :: "char \<Rightarrow> int" where
  "digitVal c = int (of_char c) - 48"

definition commaOrPeriod :: "char \<Rightarrow> bool" where
  "commaOrPeriod b = (b = CHR ''.'' \<or> b = CHR '','')"

fun leadingInt :: "int \<Rightarrow> string \<Rightarrow> int \<times> string" where
  "leadingInt x [] = (x, [])"
| "leadingInt x (c # cs) =
     (if isDigit c then leadingInt (x * 10 + digitVal c) cs else (x, c # cs))"

text \<open>\<open>atoi\<close>: an optional sign, then digits up to the end of the string.\<close>

definition atoi :: "string \<Rightarrow> int option" where
  "atoi s =
     (let neg = (s \<noteq> [] \<and> hd s = CHR ''-'');
          s = (if s \<noteq> [] \<and> (hd s = CHR ''-'' \<or> hd s = CHR ''+'') then tl s else s)
      in (case leadingInt 0 s of
            (q, rem) \<Rightarrow> if rem \<noteq> [] then None else Some (if neg then - q else q)))"

text \<open>\<open>getnum\<close>: one or two digits; exactly two when \<open>fixed\<close>.\<close>

definition getnum :: "string \<Rightarrow> bool \<Rightarrow> (int \<times> string) option" where
  "getnum s fixed =
     (case s of
        [] \<Rightarrow> None
      | c # cs \<Rightarrow>
          if \<not> isDigit c then None
          else (case cs of
                  [] \<Rightarrow> if fixed then None else Some (digitVal c, cs)
                | d # ds \<Rightarrow>
                    if \<not> isDigit d then (if fixed then None else Some (digitVal c, cs))
                    else Some (digitVal c * 10 + digitVal d, ds)))"

text \<open>
  \<open>skip\<close> removes the literal text of the layout from the value; a space of the layout
  stands for any run of spaces of the value.
\<close>

function skip :: "string \<Rightarrow> string \<Rightarrow> string option" where
  "skip v [] = Some v"
| "skip v (p # ps) =
     (if p = CHR '' '' then
        (if v \<noteq> [] \<and> hd v \<noteq> CHR '' '' then None
         else skip (dropWhile (\<lambda>c. c = CHR '' '') v) (dropWhile (\<lambda>c. c = CHR '' '') ps))
      else (case v of
              [] \<Rightarrow> None
            | c # cs \<Rightarrow> if c \<noteq> p then None else skip cs ps))"
  by pat_completeness auto
termination
  by (relation "measure (\<lambda>(v, p). length p)")
     (auto simp add: less_Suc_eq_le length_dropWhile_le)

datatype std =
    stdNone | stdLongYear | stdZeroMonth | stdZeroDay | stdHour | stdZeroMinute
  | stdZeroSecond | stdFracSecond0 nat | stdISO8601ColonTZ

text \<open>
  \<open>nextStdChunk\<close>: the literal text before the first layout element, that element
  (\<open>stdNone\<close> when there is none left) and the rest of the layout.
\<close>

fun nextStdChunk :: "string \<Rightarrow> string \<times> std \<times> string" where
  "nextStdChunk [] = ([], stdNone, [])"
| "nextStdChunk (c # cs) =
     (if take 4 (c # cs) = ''2006'' then ([], stdLongYear, drop 3 cs)
      else if take 2 (c # cs) = ''01'' then ([], stdZeroMonth, drop 1 cs)
      else if take 2 (c # cs) = ''02'' then ([], stdZeroDay, drop 1 cs)
      else if take 2 (c # cs) = ''15'' then ([], stdHour, drop 1 cs)
      else if take 2 (c # cs) = ''04'' then ([], stdZeroMinute, drop 1 cs)
      else if take 2 (c # cs) = ''05'' then ([], stdZeroSecond, drop 1 cs)
      else if take 6 (c # cs) = ''Z07:00'' then ([], stdISO8601ColonTZ, drop 5 cs)
      else if c = CHR ''.'' \<and> take 1 cs = ''0''
              \<and> (case dropWhile (\<lambda>d. d = CHR ''0'') cs of [] \<Rightarrow> True | d # ds \<Rightarrow> \<not> isDigit d)
           then ([], stdFracSecond0 (length (takeWhile (\<lambda>d. d = CHR ''0'') cs)),
                 dropWhile (\<lambda>d. d = CHR ''0'') cs)
      else (case nextStdChunk cs of (prefix, st, suffix) \<Rightarrow> (c # prefix, st, suffix)))"

text \<open>The time being constructed by the parser.\<close>

record fields =
  year :: int
  month :: int
  day :: int
  hour :: int
  minute :: int
  sec :: int
  nsecs :: int
  z :: "Location option"
  zoneOffset :: int

definition parseNanoseconds :: "string \<Rightarrow> nat \<Rightarrow> int option" where
  "parseNanoseconds v nbytes =
     (case v of
        [] \<Rightarrow> None
      | c # cs \<Rightarrow>
          if \<not> commaOrPeriod c then None
          else (let nbytes = (if nbytes > 10 then 10 else nbytes)
                in (case atoi (take (nbytes - 1) cs) of
                      None \<Rightarrow> None
                    | Some ns \<Rightarrow> if ns < 0 then None else Some (ns * 10 ^ (10 - nbytes)))))"

text \<open>
  One layout element read from the value. After the seconds, a fraction in the value is
  read even when the layout has none, unless the layout's next element is a fraction.
\<close>

definition parseStd :: "std \<Rightarrow> string \<Rightarrow> fields \<Rightarrow> string \<Rightarrow> (fields \<times> string) option" where
  "parseStd st layout f v =
     (case st of
        stdNone \<Rightarrow> None
      | stdLongYear \<Rightarrow>
          (case v of
             [] \<Rightarrow> None
           | c # cs \<Rightarrow>
               if length v < 4 \<or> \<not> isDigit c then None
               else (case atoi (take 4 v) of
                       None \<Rightarrow> None
                     | Some y \<Rightarrow> Some (f\<lparr>year := y\<rparr>, drop 4 v)))
      | stdZeroMonth \<Rightarrow>
          (case getnum v True of
             None \<Rightarrow> None
           | Some (m, v') \<Rightarrow> if m \<le> 0 \<or> 12 < m then None else Some (f\<lparr>month := m\<rparr>, v'))
      | stdZeroDay \<Rightarrow>
          (case getnum v True of
             None \<Rightarrow> None
           | Some (d, v') \<Rightarrow> Some (f\<lparr>day := d\<rparr>, v'))
      | stdHour \<Rightarrow>
          (case getnum v False of
             None \<Rightarrow> None
           | Some (h, v') \<Rightarrow> if h < 0 \<or> 24 \<le> h then None else Some (f\<lparr>hour := h\<rparr>, v'))
      | stdZeroMinute \<Rightarrow>
          (case getnum v True of
             None \<Rightarrow> None
           | Some (m, v') \<Rightarrow> if m < 0 \<or> 60 \<le> m then None else Some (f\<lparr>minute := m\<rparr>, v'))
      | stdZeroSecond \<Rightarrow>
          (case getnum v True of
             None \<Rightarrow> None
           | Some (s, v') \<Rightarrow>
               if s < 0 \<or> 60 \<le> s then None
               else if length v' \<ge> 2 \<and> commaOrPeriod (v' ! 0) \<and> isDigit (v' ! 1) then
                 (case fst (snd (nextStdChunk layout)) of
                    stdFracSecond0 k \<Rightarrow> Some (f\<lparr>sec := s\<rparr>, v')
                  | _ \<Rightarrow>
                      (let n = 2 + length (takeWhile isDigit (drop 2 v'))
                       in (case parseNanoseconds v' n of
                             None \<Rightarrow> None
                           | Some ns \<Rightarrow> Some (f\<lparr>sec := s, nsecs := ns\<rparr>, drop n v'))))
               else Some (f\<lparr>sec := s\<rparr>, v'))
      | stdFracSecond0 k \<Rightarrow>
          (let ndigit = 1 + k
           in if length v < ndigit then None
              else (case parseNanoseconds v ndigit of
                      None \<Rightarrow> None
                    | Some ns \<Rightarrow> Some (f\<lparr>nsecs := ns\<rparr>, drop ndigit v)))
      | stdISO8601ColonTZ \<Rightarrow>
          (if length v \<ge> 1 \<and> v ! 0 = CHR ''Z'' then Some (f\<lparr>z := Some UTC\<rparr>, drop 1 v)
           else if length v < 6 then None
           else if v ! 3 \<noteq> CHR '':'' then None
           else (case getnum (take 2 (drop 1 v)) True of
                   None \<Rightarrow> None
                 | Some (hr, r1) \<Rightarrow>
                     (case getnum (take 2 (drop 4 v)) True of
                        None \<Rightarrow> None
                      | Some (mm, r2) \<Rightarrow>
                          if hr > 24 \<or> mm > 60 then None
                          else if v ! 0 = CHR ''+''
                            then Some (f\<lparr>zoneOffset := (hr * 60 + mm) * 60\<rparr>, drop 6 v)
                          else if v ! 0 = CHR ''-''
                            then Some (f\<lparr>zoneOffset := - ((hr * 60 + mm) * 60)\<rparr>, drop 6 v)
                          else None))))"

lemma nextStdChunk_shorter:
  "nextStdChunk l = (p, st, suf) \<Longrightarrow> st \<noteq> stdNone \<Longrightarrow> length suf < length l"
proof (induction l arbitrary: p st suf)
  case Nil
  then show ?case by simp
next
  case (Cons c cs)
  have dw: "length (dropWhile (\<lambda>d. d = CHR ''0'') cs) \<le> length cs"
    by (rule length_dropWhile_le)
  from Cons.prems dw Cons.IH show ?case
    by (auto split: if_splits prod.splits simp del: take_Suc_Cons)
qed

text \<open>
  The loop of the parser: literal text, then one element, until the layout has no element
  left; text left over in the value is an error.
\<close>

function parseLoop :: "string \<Rightarrow> string \<Rightarrow> fields \<Rightarrow> fields option" where
  "parseLoop layout v f =
     (case nextStdChunk layout of
        (prefix, st, suffix) \<Rightarrow>
          (case skip v prefix of
             None \<Rightarrow> None
           | Some v' \<Rightarrow>
               if st = stdNone then (if v' \<noteq> [] then None else Some f)
               else (case parseStd st suffix f v' of
                       None \<Rightarrow> None
                     | Some (f', v'') \<Rightarrow> parseLoop suffix v'' f')))"
  by pat_completeness auto
termination
  by (relation "measure (\<lambda>(layout, v, f). length layout)")
     (auto dest: nextStdChunk_shorter [OF sym])

definition isLeap :: "int \<Rightarrow> bool" where
  "isLeap y = (y mod 4 = 0 \<and> (y mod 100 \<noteq> 0 \<or> y mod 400 = 0))"

definition daysBefore :: "int list" where
  "daysBefore = [0, 31, 59, 90, 120, 151, 181, 212, 243, 273, 304, 334, 365]"

definition daysIn :: "int \<Rightarrow> int \<Rightarrow> int" where
  "daysIn m y =
     (if m = 2 \<and> isLeap y then 29
      else daysBefore ! nat m - daysBefore ! nat (m - 1))"

text \<open>
  \<open>time.Date\<close> for a month from 1 to 12 and the other arguments in range, which is what
  the parser passes after its range checks: the days since January 1 of year 1, then the
  seconds of the day.
\<close>

definition Date :: "int \<Rightarrow> int \<Rightarrow> int \<Rightarrow> int \<Rightarrow> int \<Rightarrow> int \<Rightarrow> int \<Rightarrow> Location \<Rightarrow> Time" where
  "Date y m d h mi s ns l =
     (let y1 = y - 1;
          days = 365 * y1 + y1 div 4 - y1 div 100 + y1 div 400
                 + daysBefore ! nat (m - 1)
                 + (if isLeap y \<and> m \<ge> 3 then 1 else 0)
                 + (d - 1)
      in \<lparr>abs_sec = days * 86400 + h * 3600 + mi * 60 + s, nsec = ns, loc = l\<rparr>)"

text \<open>The state of the parser before the first layout element.\<close>

definition zeroFields :: fields where
  "zeroFields =
     \<lparr>year = 0, month = - 1, day = - 1, hour = 0, minute = 0, sec = 0, nsecs = 0,
      z = None, zoneOffset = - 1\<rparr>"

text \<open>
  \<open>time.Parse\<close>: the day is checked against the month once all elements are read. A value
  without zone is a time in UTC; a zone offset is subtracted from the instant. (Go
  substitutes the local zone for a fixed zone of the same offset, which changes the
  location only.)
\<close>

definition Parse :: "string \<Rightarrow> string \<Rightarrow> Time option" where
  "Parse layout v =
     (case parseLoop layout v zeroFields of
        None \<Rightarrow> None
      | Some f \<Rightarrow>
          (let month = (if month f < 0 then 1 else month f);
               day = (if day f < 0 then 1 else day f)
           in if day < 1 \<or> day > daysIn month (year f) then None
              else (case z f of
                      Some l \<Rightarrow>
                        Some (Date (year f) month day (hour f) (minute f) (sec f) (nsecs f) l)
                    | None \<Rightarrow>
                        if zoneOffset f \<noteq> - 1 then
                          (let t = Date (year f) month day (hour f) (minute f) (sec f)
                                     (nsecs f) UTC
                           in Some (t\<lparr>abs_sec := abs_sec t - zoneOffset f,
                                      loc := FixedZone (zoneOffset f)\<rparr>))
                        else Some (Date (year f) month day (hour f) (minute f) (sec f)
                                     (nsecs f) UTC))))"

section \<open>The part of \<open>regexp\<close> the validator uses\<close>

text \<open>
  Regular expressions over bytes, with the operators of the validator's patterns;
  \<open>Digit\<close> is the class \<open>\d\<close>. \<open>matches r s\<close> holds when \<open>r\<close> matches the whole of
  \<open>s\<close>. The patterns of the validator start with \<open>^\<close> and end with \<open>$\<close>, which without
  flags stand for the beginning and the end of the text, so that \<open>MatchString\<close> is a match
  of the whole string by the pattern between them.
\<close>

datatype regexp = Digit | Lit char | Cat regexp regexp | Opt regexp | Star regexp

fun matches :: "regexp \<Rightarrow> string \<Rightarrow> bool" where
  "matches Digit s = (case s of [c] \<Rightarrow> isDigit c | _ \<Rightarrow> False)"
| "matches (Lit a) s = (s = [a])"
| "matches (Cat r1 r2) s =
     list_ex (\<lambda>i. matches r1 (take i s) \<and> matches r2 (drop i s)) [0..<Suc (length s)]"
| "matches (Opt r) s = (s = [] \<or> matches r s)"
| "matches (Star r) [] = True"
| "matches (Star r) (c # cs) =
     list_ex (\<lambda>i. matches r (take i (c # cs)) \<and> matches (Star r) (drop i (c # cs)))
       [1..<Suc (length (c # cs))]"

declare matches.simps [simp del]

definition MatchString :: "regexp \<Rightarrow> string \<Rightarrow> bool" where
  "MatchString re s = matches re s"

section \<open>The validator\<close>

definition customPrefix :: string where
  "customPrefix = ''custom''"

definition datetimeGteTag :: string where
  "datetimeGteTag = ''strdatetimegte''"

definition documentTag :: string where
  "documentTag = ''document''"

definition decimal2placesTag :: string where
  "decimal2placesTag = ''decimal2places''"

definition brZipCodeTag :: string where
  "brZipCodeTag = ''brzipcode''"

definition iso8601dateTag :: string where
  "iso8601dateTag = ''iso8601date''"

definition mustBeGteMessage :: string where
  "mustBeGteMessage = '' must be greater than or equal ''"

definition decimal2placesMessage :: string where
  "decimal2placesMessage = '' must be in a decimal value format as %.2f''"

definition documentMessage :: string where
  "documentMessage = '' must be a valid cpf or cnpj''"

definition zipCodeMessage :: string where
  "zipCodeMessage = '' must be a valid br zip code''"

definition isoMessage :: string where
  "isoMessage = '' must be a YYYY-MM-DD format date''"

text \<open>The pattern \<open>^(\d*\.)?\d{2}$\<close>; \<open>\d{2}\<close> is \<open>\d\d\<close>.\<close>

definition regexForValidDecimalValues :: regexp where
  "regexForValidDecimalValues =
     Cat (Opt (Cat (Star Digit) (Lit (CHR ''.'')))) (Cat Digit Digit)"

definition decimalValuesRegex :: regexp where
  "decimalValuesRegex = regexForValidDecimalValues"

definition cannotBeEmptyArrayProblemJSON :: Problem where
  "cannotBeEmptyArrayProblemJSON = New [Status StatusBadRequest, Title ''Cannot be empty.'']"

text \<open>
  One violation reported by the tag engine (\<open>validator.FieldError\<close>), and what
  \<open>tagValidator.Struct\<close> returns: no error, the list of violations, or an error of
  another type (the engine's \<open>InvalidValidationError\<close>).
\<close>

record FieldError =
  fe_Namespace :: string
  fe_Field :: string
  fe_Tag :: string
  fe_Param :: string

datatype StructError = NoError | ValidationErrors "FieldError list" | InvalidValidationError

text \<open>
  \<open>genericValidator\<close>: the tag engine and the translator are the collaborators of the
  validator and stay parameters.
\<close>

record genericValidator =
  tagValidator_Struct :: "Value \<Rightarrow> StructError"
  trans_Translate :: "FieldError \<Rightarrow> string"
  messageErrors :: "string \<rightharpoonup> string"

text \<open>
  What a rule predicate receives from the tag engine (\<open>validator.FieldLevel\<close>): the
  annotated field, the parameter of the rule, and the enclosing struct.
\<close>

record FieldLevel =
  fl_Field :: "Value"
  fl_Param :: string
  fl_Parent :: "Value"

record UTCTime =
  utc_Time :: Time

definition defaultFormat :: string where
  "defaultFormat = ''2006-01-02T15:04:05Z07:00''"

definition MilisecondsFormat :: string where
  "MilisecondsFormat = ''2006-01-02T15:04:05.000Z''"

definition DateTimeZeroFormat :: string where
  "DateTimeZeroFormat = ''2006-01-02T15:04:05Z''"

definition layouts :: "string list" where
  "layouts =
     [defaultFormat,
      ''2006-01-02T15:04Z'',
      DateTimeZeroFormat,
      MilisecondsFormat,
      ''2006-01-02T15:04:05'',
      ''2006-01-02 15:04'',
      ''2006-01-02 15:04:05'',
      ''2006-01-02 15:04:05.000'',
      ''2006-01-02'']"

text \<open>\<open>parseToUTCTime\<close>: the loop over the layouts returns at the first that parses.\<close>

fun parseToUTCTime_layouts :: "string list \<Rightarrow> string \<Rightarrow> string + UTCTime" where
  "parseToUTCTime_layouts [] timeString = Inl (''invalid date format: '' @ timeString)"
| "parseToUTCTime_layouts (layout # rest) timeString =
     (case Parse layout timeString of
        Some parsed \<Rightarrow> Inr \<lparr>utc_Time = Time_UTC parsed\<rparr>
      | None \<Rightarrow> parseToUTCTime_layouts rest timeString)"

definition parseToUTCTime :: "string \<Rightarrow> string + UTCTime" where
  "parseToUTCTime timeString = parseToUTCTime_layouts layouts timeString"

text \<open>
  \<open>validateDatetimeGTE\<close>. The sibling field is looked up before anything is parsed;
  \<open>FieldByName\<close> panics when the parent (or what a pointer parent points to) is not a
  struct.
\<close>

definition validateDatetimeGTE :: "FieldLevel \<Rightarrow> bool outcome" where
  "validateDatetimeGTE fl =
     (let fieldValue = Value_String (fl_Field fl);
          otherFieldName = fl_Param fl
      in (case (if Value_Kind (fl_Parent fl) = Ptr
                then (case Value_Elem (fl_Parent fl) of
                        Panics \<Rightarrow> Panics
                      | Returns el \<Rightarrow> Value_FieldByName el otherFieldName)
                else Value_FieldByName (fl_Parent fl) otherFieldName) of
            Panics \<Rightarrow> Panics
          | Returns otherFieldVal \<Rightarrow>
              (case parseToUTCTime fieldValue of
                 Inl err \<Rightarrow> Returns False
               | Inr referenceField \<Rightarrow>
                   (case parseToUTCTime (Value_String otherFieldVal) of
                      Inl err \<Rightarrow> Returns False
                    | Inr compareField \<Rightarrow>
                        if Before (utc_Time referenceField) (utc_Time compareField)
                        then Returns False
                        else Returns True))))"

definition validDecimalValue :: "FieldLevel \<Rightarrow> bool" where
  "validDecimalValue fl = MatchString decimalValuesRegex (Value_String (fl_Field fl))"

text \<open>
  \<open>getJsonTagNameFromPropertyName\<close>: one step of the loop per name of the parameter.
  \<open>pointr.Kind()\<close> panics on the nil type, and \<open>FieldByName\<close> on a type that is not a
  struct.
\<close>

definition jsonTagName :: "Type option \<Rightarrow> string \<Rightarrow> string outcome" where
  "jsonTagName pointr field =
     (case pointr of
        None \<Rightarrow> Panics
      | Some ty \<Rightarrow>
          (case (if Type_Kind ty = Ptr
                 then (case Type_Elem ty of
                         Panics \<Rightarrow> Panics
                       | Returns el \<Rightarrow> Type_FieldByName el field)
                 else Type_FieldByName ty field) of
             Panics \<Rightarrow> Panics
           | Returns otherFieldVal \<Rightarrow>
               (let tag = Tag_Get (sf_Tag otherFieldVal) ''json'';
                    tag = (if tag = [] then Tag_Get (sf_Tag otherFieldVal) ''param'' else tag);
                    tag = (if tag = [] then Tag_Get (sf_Tag otherFieldVal) ''query'' else tag);
                    tag = (if tag = [] then field else tag)
                in (case Split tag (CHR '','') of
                      [] \<Rightarrow> Panics
                    | n # ns \<Rightarrow> Returns n))))"

fun jsonTagNames :: "Type option \<Rightarrow> string list \<Rightarrow> string list outcome" where
  "jsonTagNames pointr [] = Returns []"
| "jsonTagNames pointr (field # rest) =
     (case jsonTagName pointr field of
        Panics \<Rightarrow> Panics
      | Returns n \<Rightarrow>
          (case jsonTagNames pointr rest of
             Panics \<Rightarrow> Panics
           | Returns ns \<Rightarrow> Returns (n # ns)))"

definition getJsonTagNameFromPropertyName :: "string \<Rightarrow> Value \<Rightarrow> string list outcome" where
  "getJsonTagNameFromPropertyName param body =
     jsonTagNames (TypeOf body) (Split param (CHR '' ''))"

text \<open>The body of the loop of \<open>validate\<close>: the \<open>InvalidParam\<close> of one violation.\<close>

definition invalidParam :: "genericValidator \<Rightarrow> Value \<Rightarrow> FieldError \<Rightarrow> InvalidParam outcome" where
  "invalidParam gv body validationError =
     (let paths = Split (fe_Namespace validationError) (CHR ''.'');
          name = (if length paths > 1 then Join (tl paths) ''.''
                  else fe_Namespace validationError);
          tag = fe_Tag validationError;
          field = fe_Field validationError
      in if HasPrefix tag customPrefix then
           Returns \<lparr>Name = name,
                    Reason = (case messageErrors gv tag of None \<Rightarrow> [] | Some message \<Rightarrow> message)\<rparr>
         else if tag = ''required_without_all'' then
           (case getJsonTagNameFromPropertyName (fe_Param validationError) body of
              Panics \<Rightarrow> Panics
            | Returns tags \<Rightarrow>
                Returns \<lparr>Name = name,
                         Reason = ''at least one of these fields are required: '' @ field
                                  @ '', '' @ Join tags '', ''\<rparr>)
         else if tag = ''required_with'' then
           (case getJsonTagNameFromPropertyName (fe_Param validationError) body of
              Panics \<Rightarrow> Panics
            | Returns tags \<Rightarrow>
                Returns \<lparr>Name = name,
                         Reason = field @ '' is required if one of these fields are filled: ''
                                  @ Join tags '', ''\<rparr>)
         else if tag = datetimeGteTag then
           (case getJsonTagNameFromPropertyName (fe_Param validationError) body of
              Panics \<Rightarrow> Panics
            | Returns [] \<Rightarrow> Panics
            | Returns (t # ts) \<Rightarrow> Returns \<lparr>Name = name, Reason = field @ mustBeGteMessage @ t\<rparr>)
         else if tag = documentTag then
           Returns \<lparr>Name = name, Reason = field @ documentMessage\<rparr>
         else if tag = decimal2placesTag then
           Returns \<lparr>Name = name, Reason = field @ decimal2placesMessage\<rparr>
         else if tag = brZipCodeTag then
           Returns \<lparr>Name = name, Reason = field @ zipCodeMessage\<rparr>
         else if tag = iso8601dateTag then
           Returns \<lparr>Name = name, Reason = field @ isoMessage\<rparr>
         else
           Returns \<lparr>Name = name, Reason = trans_Translate gv validationError\<rparr>)"

fun invalidParams :: "genericValidator \<Rightarrow> Value \<Rightarrow> FieldError list \<Rightarrow> InvalidParam list outcome" where
  "invalidParams gv body [] = Returns []"
| "invalidParams gv body (e # es) =
     (case invalidParam gv body e of
        Panics \<Rightarrow> Panics
      | Returns p \<Rightarrow>
          (case invalidParams gv body es of
             Panics \<Rightarrow> Panics
           | Returns ps \<Rightarrow> Returns (p # ps)))"

text \<open>
  \<open>validate\<close>: the type assertion \<open>err.(validator.ValidationErrors)\<close> has no
  comma-ok form, so an error of another type panics.
\<close>

definition validate :: "genericValidator \<Rightarrow> Value \<Rightarrow> Problem option outcome" where
  "validate gv body =
     (case tagValidator_Struct gv body of
        NoError \<Rightarrow> Returns None
      | InvalidValidationError \<Rightarrow> Panics
      | ValidationErrors validationErrors \<Rightarrow>
          (if length validationErrors > 0 then
             (case invalidParams gv body validationErrors of
                Panics \<Rightarrow> Panics
              | Returns ps \<Rightarrow>
                  Returns (Some (Append (New [Status StatusBadRequest])
                                   [Custom ''invalid_params'' (InvalidParamsAttr ps)])))
           else Returns None))"

text \<open>The loop of \<open>Validate\<close> over the elements of a slice, from index 0.\<close>

fun Validate_elements :: "genericValidator \<Rightarrow> Value list \<Rightarrow> error outcome" where
  "Validate_elements gv [] = Returns NilError"
| "Validate_elements gv (x # xs) =
     (case validate gv x of
        Panics \<Rightarrow> Panics
      | Returns (Some problemJSON) \<Rightarrow> Returns (ProblemError (Some problemJSON))
      | Returns None \<Rightarrow> Validate_elements gv xs)"

text \<open>
  \<open>Validate\<close>. \<open>reflect.TypeOf(body)\<close> is the nil type for the nil interface, and
  \<open>Kind\<close> called on it panics. The struct, interface and pointer case converts the
  \<open>*problem.Problem\<close> that \<open>validate\<close> returns to \<open>error\<close> as it is.
\<close>

definition Validate :: "genericValidator \<Rightarrow> Value \<Rightarrow> error outcome" where
  "Validate gv body =
     (case TypeOf body of
        None \<Rightarrow> Panics
      | Some ty \<Rightarrow>
          (let kind = Type_Kind ty
           in if kind = Slice then
                (case Value_elements body of
                   Panics \<Rightarrow> Panics
                 | Returns slice \<Rightarrow>
                     if length slice = 0
                     then Returns (ProblemError (Some cannotBeEmptyArrayProblemJSON))
                     else Validate_elements gv slice)
              else if kind = Struct \<or> kind = Interface \<or> kind = Ptr then
                (case validate gv body of
                   Panics \<Rightarrow> Panics
                 | Returns p \<Rightarrow> Returns (ProblemError p))
              else Returns NilError))"

section \<open>Sample inputs\<close>

text \<open>
  A struct with one required field, as in the tests of the validator, and a validator
  whose tag engine reports that field when it is empty and rejects what is not a struct.
\<close>

definition requiredModel :: "string \<Rightarrow> Value" where
  "requiredModel v =
     StructV ''Model''
       [(\<lparr>sf_Name = ''RequiredField'',
          sf_Tag = [(''json'', ''required_field''), (''validate'', ''required'')]\<rparr>,
         StringV v)]"

definition requiredModelType :: Type where
  "requiredModelType =
     StructT ''Model''
       [\<lparr>sf_Name = ''RequiredField'',
         sf_Tag = [(''json'', ''required_field''), (''validate'', ''required'')]\<rparr>]"

definition requiredValidator :: genericValidator where
  "requiredValidator =
     \<lparr>tagValidator_Struct =
        (\<lambda>body. case body of
           StructV n fs \<Rightarrow>
             (case Value_FieldByName body ''RequiredField'' of
                Returns (StringV []) \<Rightarrow>
                  ValidationErrors
                    [\<lparr>fe_Namespace = n @ ''.required_field'', fe_Field = ''required_field'',
                      fe_Tag = ''required'', fe_Param = []\<rparr>]
              | _ \<Rightarrow> NoError)
         | _ \<Rightarrow> InvalidValidationError),
      trans_Translate = (\<lambda>e. fe_Field e @ '' is a required field''),
      messageErrors = Map.empty\<rparr>"

definition requiredProblem :: Problem where
  "requiredProblem =
     Append (New [Status StatusBadRequest])
       [Custom ''invalid_params''
          (InvalidParamsAttr
             [\<lparr>Name = ''required_field'', Reason = ''required_field is a required field''\<rparr>])]"

text \<open>
  A struct whose first field is required when the two next are absent, with names taken
  from the three tag keys and one field marked \<open>json:"-"\<close>; the violation that the tag
  engine reports for it, and a validator whose engine reports that violation.
\<close>

definition contactFields :: "(StructField \<times> Value) list" where
  "contactFields =
     [(\<lparr>sf_Name = ''Name'',
        sf_Tag = [(''json'', ''name''),
                  (''validate'', ''required_without_all=Email Phone'')]\<rparr>, StringV []),
      (\<lparr>sf_Name = ''Email'', sf_Tag = [(''json'', ''email,omitempty'')]\<rparr>, StringV []),
      (\<lparr>sf_Name = ''Phone'', sf_Tag = [(''param'', ''phone'')]\<rparr>, StringV []),
      (\<lparr>sf_Name = ''Secret'', sf_Tag = [(''json'', ''-''), (''param'', ''secret'')]\<rparr>,
       StringV [])]"

definition contactBody :: "Value" where
  "contactBody = StructV ''Contact'' contactFields"

definition contactViolation :: FieldError where
  "contactViolation =
     \<lparr>fe_Namespace = ''Contact.name'', fe_Field = ''name'',
      fe_Tag = ''required_without_all'', fe_Param = ''Email Phone''\<rparr>"

definition contactValidator :: genericValidator where
  "contactValidator =
     \<lparr>tagValidator_Struct =
        (\<lambda>body. if body = contactBody then ValidationErrors [contactViolation] else NoError),
      trans_Translate = (\<lambda>e. fe_Field e),
      messageErrors = Map.empty\<rparr>"

text \<open>A struct with two date fields, the second annotated \<open>strdatetimegte=Field1\<close>.\<close>

definition datesBody :: "string \<Rightarrow> string \<Rightarrow> Value" where
  "datesBody d1 d2 =
     StructV ''Dates''
       [(\<lparr>sf_Name = ''Field1'', sf_Tag = []\<rparr>, StringV d1),
        (\<lparr>sf_Name = ''Field2'',
          sf_Tag = [(''json'', ''field2''), (''validate'', ''strdatetimegte=Field1'')]\<rparr>,
         StringV d2)]"

definition datesType :: Type where
  "datesType =
     StructT ''Dates''
       [\<lparr>sf_Name = ''Field1'', sf_Tag = []\<rparr>,
        \<lparr>sf_Name = ''Field2'',
         sf_Tag = [(''json'', ''field2''), (''validate'', ''strdatetimegte=Field1'')]\<rparr>]"

definition datesFieldLevel :: "string \<Rightarrow> string \<Rightarrow> string \<Rightarrow> FieldLevel" where
  "datesFieldLevel d1 d2 param =
     \<lparr>fl_Field = StringV d2, fl_Param = param, fl_Parent = datesBody d1 d2\<rparr>"

definition decimalFieldLevel :: "string \<Rightarrow> FieldLevel" where
  "decimalFieldLevel v = \<lparr>fl_Field = StringV v, fl_Param = [], fl_Parent = NilV\<rparr>"

text \<open>
  The pattern that the words ``an optional integer part, an optional single dot, and
  exactly two trailing digits'' describe, each part optional on its own:
  \<open>(\d+)?\.?\d{2}\<close>.
\<close>

definition decimalWording :: regexp where
  "decimalWording =
     Cat (Opt (Cat Digit (Star Digit))) (Cat (Opt (Lit (CHR ''.''))) (Cat Digit Digit))"

section \<open>The dispatcher\<close>

lemma cannotBeEmpty_status:
  "cannotBeEmptyArrayProblemJSON ''status'' = Some (IntAttr 400)"
  by (simp add: cannotBeEmptyArrayProblemJSON_def New_def Append_def Status_def Title_def
      StatusBadRequest_def)

lemma cannotBeEmpty_title:
  "cannotBeEmptyArrayProblemJSON ''title'' = Some (StringAttr ''Cannot be empty.'')"
  by (simp add: cannotBeEmptyArrayProblemJSON_def New_def Append_def Status_def Title_def)

lemma cannotBeEmpty_invalid_params:
  "cannotBeEmptyArrayProblemJSON ''invalid_params'' = None"
  by (simp add: cannotBeEmptyArrayProblemJSON_def New_def Append_def Status_def Title_def)

lemma invalid_params_problem:
  "Append (New [Status StatusBadRequest]) [Custom ''invalid_params'' (InvalidParamsAttr ps)]
     ''invalid_params'' = Some (InvalidParamsAttr ps)"
  by (simp add: Append_def New_def Custom_def Status_def)

lemma validate_has_invalid_params:
  assumes "validate gv body = Returns (Some p)"
  shows "\<exists>ps. p ''invalid_params'' = Some (InvalidParamsAttr ps)"
proof (cases "tagValidator_Struct gv body")
  case NoError
  with assms show ?thesis by (simp add: validate_def)
next
  case (ValidationErrors es)
  with assms obtain ps where
    "p = Append (New [Status StatusBadRequest]) [Custom ''invalid_params'' (InvalidParamsAttr ps)]"
    by (auto simp add: validate_def split: if_splits outcome.splits)
  then show ?thesis using invalid_params_problem by blast
next
  case InvalidValidationError
  with assms show ?thesis by (simp add: validate_def)
qed

lemma Validate_elements_find:
  "Validate_elements gv xs =
     (case find (\<lambda>x. validate gv x \<noteq> Returns None) xs of
        None \<Rightarrow> Returns NilError
      | Some x \<Rightarrow>
          (case validate gv x of Panics \<Rightarrow> Panics | Returns p \<Rightarrow> Returns (ProblemError p)))"
  by (induction xs) (auto split: outcome.splits option.splits)

lemma requiredModel_valid:
  "v \<noteq> [] \<Longrightarrow> validate requiredValidator (requiredModel v) = Returns None"
  by (cases v) (simp_all add: validate_def requiredValidator_def requiredModel_def)

lemma requiredModel_invalid:
  "validate requiredValidator (requiredModel []) = Returns (Some requiredProblem)"
  by (simp add: validate_def requiredValidator_def requiredModel_def invalidParam_def
      HasPrefix_def customPrefix_def datetimeGteTag_def documentTag_def decimal2placesTag_def
      brZipCodeTag_def iso8601dateTag_def requiredProblem_def)

text \<open>
  C1. For a slice that is not empty, \<open>Validate\<close> validates the elements in order, and its
  result is that of the first element whose validation does not return nil: the problem of
  that element, returned as the error. When the validation of every element returns nil,
  \<open>Validate\<close> returns the nil error. (An element for which the tag engine reports an error
  that is not a list of violations makes the type assertion of \<open>validate\<close> panic; when such
  an element comes before any failing one, the panic is the outcome of \<open>Validate\<close>.)
\<close>

theorem Validate_nonempty_slice:
  assumes "xs \<noteq> []"
  shows "Validate gv (SliceV t xs) =
     (case find (\<lambda>x. validate gv x \<noteq> Returns None) xs of
        None \<Rightarrow> Returns NilError
      | Some x \<Rightarrow>
          (case validate gv x of Panics \<Rightarrow> Panics | Returns p \<Rightarrow> Returns (ProblemError p)))"
  using assms by (simp add: Validate_def Validate_elements_find)

theorem Validate_nonempty_slice_witness:
  "[requiredModel ''xpto'', requiredModel [], requiredModel []] \<noteq> []
   \<and> Validate requiredValidator
       (SliceV requiredModelType [requiredModel ''xpto'', requiredModel [], requiredModel []])
     = Returns (ProblemError (Some requiredProblem))
   \<and> Validate requiredValidator
       (SliceV requiredModelType [requiredModel ''xpto'', requiredModel ''xpto''])
     = Returns NilError"
proof -
  have ok: "validate requiredValidator (requiredModel ''xpto'') = Returns None"
    by (rule requiredModel_valid) simp
  have a: "[requiredModel ''xpto'', requiredModel [], requiredModel []] \<noteq> []"
    by simp
  have b: "[requiredModel ''xpto'', requiredModel ''xpto''] \<noteq> []"
    by simp
  show ?thesis
    using Validate_nonempty_slice [OF a, of requiredValidator "requiredModelType"]
      Validate_nonempty_slice [OF b, of requiredValidator "requiredModelType"]
    by (simp add: ok requiredModel_invalid)
qed

text \<open>
  C2. For the empty slice of any element type, \<open>Validate\<close> returns the fixed problem
  \<open>cannotBeEmptyArrayProblemJSON\<close>, whatever the validator: its status is 400, its title is
  ``Cannot be empty.'', and it has no \<open>invalid_params\<close> attribute, which every problem
  returned by \<open>validate\<close> has.
\<close>

theorem Validate_empty_slice:
  "Validate gv (SliceV t []) = Returns (ProblemError (Some cannotBeEmptyArrayProblemJSON))
   \<and> cannotBeEmptyArrayProblemJSON ''status'' = Some (IntAttr 400)
   \<and> cannotBeEmptyArrayProblemJSON ''title'' = Some (StringAttr ''Cannot be empty.'')
   \<and> cannotBeEmptyArrayProblemJSON ''invalid_params'' = None
   \<and> validate gv' body \<noteq> Returns (Some cannotBeEmptyArrayProblemJSON)"
proof -
  have "validate gv' body \<noteq> Returns (Some cannotBeEmptyArrayProblemJSON)"
    using validate_has_invalid_params [of gv' body cannotBeEmptyArrayProblemJSON]
      cannotBeEmpty_invalid_params by auto
  moreover have
    "Validate gv (SliceV t []) = Returns (ProblemError (Some cannotBeEmptyArrayProblemJSON))"
    by (simp add: Validate_def)
  ultimately show ?thesis
    using cannotBeEmpty_status cannotBeEmpty_title cannotBeEmpty_invalid_params by simp
qed

theorem Validate_empty_slice_witness:
  "Validate requiredValidator (SliceV requiredModelType [])
     = Returns (ProblemError (Some cannotBeEmptyArrayProblemJSON))
   \<and> Validate contactValidator (SliceV (BasicT Kind.Int ''int'') [])
     = Returns (ProblemError (Some cannotBeEmptyArrayProblemJSON))
   \<and> validate requiredValidator (requiredModel []) \<noteq> Returns (Some cannotBeEmptyArrayProblemJSON)"
  using Validate_empty_slice [of requiredValidator "requiredModelType" requiredValidator
      "requiredModel []"]
    Validate_empty_slice [of contactValidator "BasicT Kind.Int ''int''" requiredValidator
      "requiredModel []"]
  by simp

text \<open>
  C8. \<open>Validate\<close> called with the nil interface panics: \<open>reflect.TypeOf\<close> returns the nil
  type and \<open>Kind\<close> is called on it. A body of a type whose kind is none of slice, struct,
  interface and pointer gets the nil error.
\<close>

theorem Validate_nil_panics:
  "Validate gv NilV = Panics
   \<and> (TypeOf body = Some ty \<and> Type_Kind ty \<notin> {Slice, Struct, Interface, Ptr}
        \<longrightarrow> Validate gv body = Returns NilError)"
  by (simp add: Validate_def)

theorem Validate_nil_panics_witness:
  "Validate requiredValidator NilV = Panics
   \<and> TypeOf (BasicV Kind.Int ''int'') = Some (BasicT Kind.Int ''int'')
   \<and> Type_Kind (BasicT Kind.Int ''int'') \<notin> {Slice, Struct, Interface, Ptr}
   \<and> Validate requiredValidator (BasicV Kind.Int ''int'') = Returns NilError
   \<and> Validate requiredValidator (StringV ''abc'') = Returns NilError"
  using Validate_nil_panics [of requiredValidator "BasicV Kind.Int ''int''" "BasicT Kind.Int ''int''"]
    Validate_nil_panics [of requiredValidator "StringV ''abc''" "BasicT String ''string''"]
  by simp

text \<open>
  C9. For a body whose kind is array, \<open>Validate\<close> returns the nil error whatever the
  elements are: they are not validated, and an empty array is not an error.
\<close>

theorem Validate_array:
  assumes "TypeOf body = Some ty" and "Type_Kind ty = Array"
  shows "Validate gv body = Returns NilError"
  using assms by (simp add: Validate_def)

theorem Validate_array_witness:
  "TypeOf (ArrayV requiredModelType [requiredModel []])
     = Some (ArrayT 1 requiredModelType)
   \<and> Type_Kind (ArrayT 1 requiredModelType) = Array
   \<and> Validate requiredValidator (ArrayV requiredModelType [requiredModel []])
     = Returns NilError
   \<and> Validate requiredValidator (ArrayV requiredModelType []) = Returns NilError
   \<and> Validate requiredValidator (SliceV requiredModelType [requiredModel []])
     = Returns (ProblemError (Some requiredProblem))"
proof -
  have t1: "TypeOf (ArrayV requiredModelType [requiredModel []])
              = Some (ArrayT 1 requiredModelType)"
    by simp
  have t0: "TypeOf (ArrayV requiredModelType []) = Some (ArrayT 0 requiredModelType)"
    by simp
  have sl: "Validate requiredValidator (SliceV requiredModelType [requiredModel []])
              = Returns (ProblemError (Some requiredProblem))"
    by (simp add: Validate_def requiredModel_invalid)
  show ?thesis
    using Validate_array [OF t1, of requiredValidator]
      Validate_array [OF t0, of requiredValidator] sl
    by simp
qed

section \<open>The error translator\<close>

lemma required_without_all_not_custom:
  "\<not> HasPrefix ''required_without_all'' customPrefix"
  by (simp add: HasPrefix_def customPrefix_def)

lemma invalidParams_nth:
  "invalidParams gv body es = Returns ps \<Longrightarrow>
     length ps = length es
     \<and> (\<forall>i < length es. invalidParam gv body (es ! i) = Returns (ps ! i))"
proof (induction es arbitrary: ps)
  case Nil
  then show ?case by simp
next
  case (Cons e es)
  then show ?case
    by (auto split: outcome.splits simp add: nth_Cons split: nat.splits)
qed

lemma invalidParam_required_without_all:
  assumes "fe_Tag e = ''required_without_all''"
      and "invalidParam gv body e = Returns p"
  shows "\<exists>tags. getJsonTagNameFromPropertyName (fe_Param e) body = Returns tags
           \<and> Reason p = ''at least one of these fields are required: '' @ fe_Field e
                         @ '', '' @ Join tags '', ''"
  using assms required_without_all_not_custom
  by (auto simp add: invalidParam_def Let_def split: outcome.splits)

lemma contact_tags:
  "getJsonTagNameFromPropertyName ''Email Phone'' contactBody = Returns [''email'', ''phone'']"
  by (simp add: contactBody_def contactFields_def getJsonTagNameFromPropertyName_def jsonTagName_def
      Tag_Get_def)

lemma contact_invalidParam:
  "invalidParam contactValidator contactBody contactViolation =
     Returns \<lparr>Name = ''name'',
              Reason = ''at least one of these fields are required: name, email, phone''\<rparr>"
  by (simp add: invalidParam_def contactViolation_def contact_tags HasPrefix_def
      customPrefix_def)

lemma contact_validate:
  "validate contactValidator contactBody =
     Returns (Some (Append (New [Status StatusBadRequest])
                [Custom ''invalid_params''
                   (InvalidParamsAttr
                      [\<lparr>Name = ''name'',
                        Reason = ''at least one of these fields are required: name, email, phone''\<rparr>])]))"
  by (simp add: validate_def contactValidator_def contact_invalidParam
      [unfolded contactValidator_def])

text \<open>
  C5, as the validator has it. For a violation of \<open>required_without_all\<close> in the list
  that the tag engine reports, the reason of the entry at the same index is ``at least
  one of these fields are required: '' followed by the name of the field, a comma, and
  the resolved names of the fields of the parameter, separated by commas.
\<close>

theorem required_without_all_reason:
  assumes "tagValidator_Struct gv body = ValidationErrors es"
      and "i < length es"
      and "fe_Tag (es ! i) = ''required_without_all''"
      and "validate gv body = Returns (Some problemJSON)"
  shows "\<exists>ps tags. problemJSON ''invalid_params'' = Some (InvalidParamsAttr ps)
           \<and> length ps = length es
           \<and> getJsonTagNameFromPropertyName (fe_Param (es ! i)) body = Returns tags
           \<and> Reason (ps ! i) = ''at least one of these fields are required: ''
                                @ fe_Field (es ! i) @ '', '' @ Join tags '', ''"
proof -
  from assms(1,2,4) obtain ps where ps: "invalidParams gv body es = Returns ps"
    and pj: "problemJSON = Append (New [Status StatusBadRequest])
                             [Custom ''invalid_params'' (InvalidParamsAttr ps)]"
    by (auto simp add: validate_def split: if_splits outcome.splits)
  from invalidParams_nth [OF ps] assms(2)
  have len: "length ps = length es" and at: "invalidParam gv body (es ! i) = Returns (ps ! i)"
    by simp_all
  from invalidParam_required_without_all [OF assms(3) at] obtain tags where
    "getJsonTagNameFromPropertyName (fe_Param (es ! i)) body = Returns tags"
    "Reason (ps ! i) = ''at least one of these fields are required: ''
                       @ fe_Field (es ! i) @ '', '' @ Join tags '', ''"
    by blast
  with len pj invalid_params_problem show ?thesis by blast
qed

theorem required_without_all_reason_witness:
  "tagValidator_Struct contactValidator contactBody = ValidationErrors [contactViolation]
   \<and> (0::nat) < length [contactViolation]
   \<and> fe_Tag ([contactViolation] ! 0) = ''required_without_all''
   \<and> (\<exists>problemJSON ps.
         validate contactValidator contactBody = Returns (Some problemJSON)
         \<and> problemJSON ''invalid_params'' = Some (InvalidParamsAttr ps)
         \<and> length ps = 1
         \<and> Reason (ps ! 0) = ''at least one of these fields are required: name, email, phone'')"
proof -
  have e: "tagValidator_Struct contactValidator contactBody = ValidationErrors [contactViolation]"
    by (simp add: contactValidator_def)
  have l: "(0::nat) < length [contactViolation]"
    by simp
  have t: "fe_Tag ([contactViolation] ! 0) = ''required_without_all''"
    by (simp add: contactViolation_def)
  have p: "fe_Param contactViolation = ''Email Phone''"
    and f: "fe_Field contactViolation = ''name''"
    by (simp_all add: contactViolation_def)
  from required_without_all_reason [OF e l t contact_validate] obtain ps tags where
    r: "Append (New [Status StatusBadRequest])
          [Custom ''invalid_params''
             (InvalidParamsAttr
                [\<lparr>Name = ''name'',
                  Reason = ''at least one of these fields are required: name, email, phone''\<rparr>])]
          ''invalid_params'' = Some (InvalidParamsAttr ps)"
      "length ps = length [contactViolation]"
      "getJsonTagNameFromPropertyName (fe_Param ([contactViolation] ! 0)) contactBody
         = Returns tags"
      "Reason (ps ! 0) = ''at least one of these fields are required: ''
                         @ fe_Field ([contactViolation] ! 0) @ '', '' @ Join tags '', ''"
    by blast
  from r(3) have "tags = [''email'', ''phone'']"
    by (simp add: p contact_tags)
  with r(1,2,4) have "length ps = 1"
    "Reason (ps ! 0) = ''at least one of these fields are required: name, email, phone''"
    by (simp_all add: f)
  with r(1) contact_validate e l t show ?thesis by blast
qed

theorem required_without_all_reason_counterexample:
  "fe_Tag contactViolation = ''required_without_all''
   \<and> invalidParam contactValidator contactBody contactViolation =
       Returns \<lparr>Name = ''name'',
                Reason = ''at least one of these fields are required: name, email, phone''\<rparr>
   \<and> ''at least one of these fields are required: name, email, phone''
       \<noteq> ''name is required if none of: email, phone are present''"
  by (simp add: contact_invalidParam) (simp add: contactViolation_def)






section \<open>The date rule\<close>

lemma parseToUTCTime_layouts_find:
  "parseToUTCTime_layouts ls s =
     (case find (\<lambda>l. Parse l s \<noteq> None) ls of
        None \<Rightarrow> Inl (''invalid date format: '' @ s)
      | Some l \<Rightarrow> Inr \<lparr>utc_Time = Time_UTC (the (Parse l s))\<rparr>)"
  by (induction ls) (auto split: option.splits)

lemma parseToUTCTime_layouts_Inr_iff:
  "(\<exists>u. parseToUTCTime_layouts ls s = Inr u) \<longleftrightarrow> (\<exists>l \<in> set ls. \<exists>t. Parse l s = Some t)"
  by (induction ls) (auto split: option.splits)

lemma parseToUTCTime_layouts_Inl_iff:
  "(\<exists>e. parseToUTCTime_layouts ls s = Inl e) \<longleftrightarrow> (\<forall>l \<in> set ls. Parse l s = None)"
  by (induction ls) (auto split: option.splits)

lemma parent_lookup:
  assumes "fl_Parent fl = StructV n fs \<or> fl_Parent fl = PtrV ty (Some (StructV n fs))"
  shows "(if Value_Kind (fl_Parent fl) = Ptr
          then (case Value_Elem (fl_Parent fl) of
                  Panics \<Rightarrow> Panics
                | Returns el \<Rightarrow> Value_FieldByName el name)
          else Value_FieldByName (fl_Parent fl) name)
         = Value_FieldByName (StructV n fs) name"
  using assms by (auto simp add: Value_Kind_def)

lemma find_None_name:
  "name \<notin> set (map (\<lambda>fv. sf_Name (fst fv)) fs)
   \<Longrightarrow> find (\<lambda>fv. sf_Name (fst fv) = name) fs = None"
  by (induction fs) auto

lemma parse_invalid_Value:
  "parseToUTCTime ''<invalid Value>'' = Inl ''invalid date format: <invalid Value>''"
  by code_simp

lemma parse_a: "parseToUTCTime ''a'' = Inl ''invalid date format: a''"
  by code_simp

lemma parse_2022_01_01:
  "parseToUTCTime ''2022-01-01''
     = Inr \<lparr>utc_Time = \<lparr>abs_sec = 63776592000, nsec = 0, loc = UTC\<rparr>\<rparr>"
  by code_simp

lemma parse_2022_05_01:
  "parseToUTCTime ''2022-05-01''
     = Inr \<lparr>utc_Time = \<lparr>abs_sec = 63786960000, nsec = 0, loc = UTC\<rparr>\<rparr>"
  by code_simp

lemma parse_offset:
  "parseToUTCTime ''2022-01-01T02:00:00+02:00''
     = Inr \<lparr>utc_Time = \<lparr>abs_sec = 63776592000, nsec = 0, loc = UTC\<rparr>\<rparr>"
  by code_simp

text \<open>
  C3. With the parent a struct, or a pointer to one, the date rule returns true exactly
  when the string of the annotated field and the string of the sibling field both parse
  and the instant of the first, in UTC, is not before that of the second; equal instants
  pass. A string parses when some layout of \<open>layouts\<close> accepts it, and fails to when
  none does; then the rule returns false.
\<close>

theorem validateDatetimeGTE_iff:
  assumes "fl_Parent fl = StructV n fs \<or> fl_Parent fl = PtrV ty (Some (StructV n fs))"
      and "Value_FieldByName (StructV n fs) (fl_Param fl) = Returns other"
  shows "validateDatetimeGTE fl =
           Returns (\<exists>a b. parseToUTCTime (Value_String (fl_Field fl)) = Inr a
                         \<and> parseToUTCTime (Value_String other) = Inr b
                         \<and> (abs_sec (utc_Time b) < abs_sec (utc_Time a)
                            \<or> (abs_sec (utc_Time b) = abs_sec (utc_Time a)
                                \<and> nsec (utc_Time b) \<le> nsec (utc_Time a))))
         \<and> ((\<exists>a. parseToUTCTime s = Inr a) \<longleftrightarrow> (\<exists>l \<in> set layouts. \<exists>t. Parse l s = Some t))
         \<and> ((\<exists>e. parseToUTCTime s = Inl e) \<longleftrightarrow> (\<forall>l \<in> set layouts. Parse l s = None))"
proof -
  have "validateDatetimeGTE fl =
           Returns (\<exists>a b. parseToUTCTime (Value_String (fl_Field fl)) = Inr a
                         \<and> parseToUTCTime (Value_String other) = Inr b
                         \<and> (abs_sec (utc_Time b) < abs_sec (utc_Time a)
                            \<or> (abs_sec (utc_Time b) = abs_sec (utc_Time a)
                                \<and> nsec (utc_Time b) \<le> nsec (utc_Time a))))"
    unfolding validateDatetimeGTE_def Let_def parent_lookup [OF assms(1)] assms(2)
    by (auto simp add: Before_def split: sum.splits)
  then show ?thesis
    by (simp add: parseToUTCTime_def parseToUTCTime_layouts_Inr_iff
        parseToUTCTime_layouts_Inl_iff)
qed

theorem validateDatetimeGTE_iff_witness:
  "validateDatetimeGTE (datesFieldLevel ''2022-01-01'' ''2022-01-01'' ''Field1'') = Returns True
   \<and> validateDatetimeGTE (datesFieldLevel ''2022-05-01'' ''2022-01-01'' ''Field1'') = Returns False
   \<and> validateDatetimeGTE (datesFieldLevel ''2022-01-01'' ''2022-05-01'' ''Field1'') = Returns True
   \<and> validateDatetimeGTE (datesFieldLevel ''2022-01-01T02:00:00+02:00'' ''2022-01-01'' ''Field1'')
       = Returns True
   \<and> validateDatetimeGTE (datesFieldLevel ''a'' ''a'' ''Field1'') = Returns False
   \<and> validateDatetimeGTE (datesFieldLevel ''2022-01-01'' ''a'' ''Field1'') = Returns False
   \<and> validateDatetimeGTE (datesFieldLevel ''a'' ''2022-01-01'' ''Field1'') = Returns False"
proof -
  have p: "\<And>d1 d2. fl_Parent (datesFieldLevel d1 d2 ''Field1'')
             = StructV ''Dates''
                 [(\<lparr>sf_Name = ''Field1'', sf_Tag = []\<rparr>, StringV d1),
                  (\<lparr>sf_Name = ''Field2'',
                    sf_Tag = [(''json'', ''field2''), (''validate'', ''strdatetimegte=Field1'')]\<rparr>,
                   StringV d2)]
           \<or> fl_Parent (datesFieldLevel d1 d2 ''Field1'')
             = PtrV datesType (Some (StructV ''Dates''
                 [(\<lparr>sf_Name = ''Field1'', sf_Tag = []\<rparr>, StringV d1),
                  (\<lparr>sf_Name = ''Field2'',
                    sf_Tag = [(''json'', ''field2''), (''validate'', ''strdatetimegte=Field1'')]\<rparr>,
                   StringV d2)]))"
    by (simp add: datesFieldLevel_def datesBody_def)
  have o: "\<And>d1 d2. Value_FieldByName (StructV ''Dates''
                 [(\<lparr>sf_Name = ''Field1'', sf_Tag = []\<rparr>, StringV d1),
                  (\<lparr>sf_Name = ''Field2'',
                    sf_Tag = [(''json'', ''field2''), (''validate'', ''strdatetimegte=Field1'')]\<rparr>,
                   StringV d2)]) (fl_Param (datesFieldLevel d1 d2 ''Field1'')) = Returns (StringV d1)"
    by (simp add: datesFieldLevel_def)
  have f: "\<And>d1 d2. Value_String (fl_Field (datesFieldLevel d1 d2 ''Field1'')) = d2"
    and v: "\<And>d. Value_String (StringV d) = d"
    by (simp_all add: datesFieldLevel_def Value_String_def)
  show ?thesis
    using validateDatetimeGTE_iff [OF p o, of "''2022-01-01''" "''2022-01-01''"]
      validateDatetimeGTE_iff [OF p o, of "''2022-05-01''" "''2022-01-01''"]
      validateDatetimeGTE_iff [OF p o, of "''2022-01-01''" "''2022-05-01''"]
      validateDatetimeGTE_iff [OF p o, of "''2022-01-01T02:00:00+02:00''" "''2022-01-01''"]
      validateDatetimeGTE_iff [OF p o, of "''a''" "''a''"]
      validateDatetimeGTE_iff [OF p o, of "''2022-01-01''" "''a''"]
      validateDatetimeGTE_iff [OF p o, of "''a''" "''2022-01-01''"]
    by (simp add: f v parse_a parse_2022_01_01 parse_2022_05_01 parse_offset)
qed

text \<open>
  C10. When the parameter of the date rule names no field of the enclosing struct, the
  rule does not panic: the lookup returns the zero Value, whose string \<open><invalid Value>\<close>
  no layout accepts, and the rule returns false whatever the annotated value is.
\<close>

theorem validateDatetimeGTE_missing_field:
  assumes "fl_Parent fl = StructV n fs \<or> fl_Parent fl = PtrV ty (Some (StructV n fs))"
      and "fl_Param fl \<notin> set (map (\<lambda>fv. sf_Name (fst fv)) fs)"
  shows "validateDatetimeGTE fl = Returns False
         \<and> Value_FieldByName (StructV n fs) (fl_Param fl) = Returns NilV
         \<and> Value_String NilV = ''<invalid Value>''
         \<and> (\<forall>l \<in> set layouts. Parse l ''<invalid Value>'' = None)"
proof -
  have look: "Value_FieldByName (StructV n fs) (fl_Param fl) = Returns NilV"
    using find_None_name [OF assms(2)] by simp
  have str: "Value_String NilV = ''<invalid Value>''"
    by (simp add: Value_String_def)
  have "\<exists>e. parseToUTCTime ''<invalid Value>'' = Inl e"
    using parse_invalid_Value by simp
  then have none: "\<forall>l \<in> set layouts. Parse l ''<invalid Value>'' = None"
    by (simp add: parseToUTCTime_def parseToUTCTime_layouts_Inl_iff)
  have "validateDatetimeGTE fl = Returns False"
    unfolding validateDatetimeGTE_def Let_def parent_lookup [OF assms(1)] look
    by (simp add: str parse_invalid_Value split: sum.splits)
  with look str none show ?thesis by simp
qed

theorem validateDatetimeGTE_missing_field_witness:
  "''Missing'' \<notin> set (map (\<lambda>fv. sf_Name (fst fv))
        [(\<lparr>sf_Name = ''Field1'', sf_Tag = []\<rparr>, StringV ''2022-01-01''),
         (\<lparr>sf_Name = ''Field2'',
           sf_Tag = [(''json'', ''field2''), (''validate'', ''strdatetimegte=Field1'')]\<rparr>,
          StringV ''2022-05-01'')])
   \<and> validateDatetimeGTE (datesFieldLevel ''2022-01-01'' ''2022-05-01'' ''Missing'') = Returns False
   \<and> validateDatetimeGTE
        ((datesFieldLevel ''2022-01-01'' ''2022-05-01'' ''Missing'')
           \<lparr>fl_Parent := PtrV datesType (Some (datesBody ''2022-01-01'' ''2022-05-01''))\<rparr>)
       = Returns False"
proof -
  let ?fs = "[(\<lparr>sf_Name = ''Field1'', sf_Tag = []\<rparr>, StringV ''2022-01-01''),
         (\<lparr>sf_Name = ''Field2'',
           sf_Tag = [(''json'', ''field2''), (''validate'', ''strdatetimegte=Field1'')]\<rparr>,
          StringV ''2022-05-01'')]"
  let ?fl = "datesFieldLevel ''2022-01-01'' ''2022-05-01'' ''Missing''"
  let ?flp = "?fl\<lparr>fl_Parent := PtrV datesType (Some (datesBody ''2022-01-01'' ''2022-05-01''))\<rparr>"
  have p1: "fl_Parent ?fl = StructV ''Dates'' ?fs
            \<or> fl_Parent ?fl = PtrV datesType (Some (StructV ''Dates'' ?fs))"
    by (simp add: datesFieldLevel_def datesBody_def)
  have p2: "fl_Parent ?flp = StructV ''Dates'' ?fs
            \<or> fl_Parent ?flp = PtrV datesType (Some (StructV ''Dates'' ?fs))"
    by (simp add: datesFieldLevel_def datesBody_def)
  have m1: "fl_Param ?fl \<notin> set (map (\<lambda>fv. sf_Name (fst fv)) ?fs)"
    by (simp add: datesFieldLevel_def)
  have m2: "fl_Param ?flp \<notin> set (map (\<lambda>fv. sf_Name (fst fv)) ?fs)"
    by (simp add: datesFieldLevel_def)
  have m: "''Missing'' \<notin> set (map (\<lambda>fv. sf_Name (fst fv)) ?fs)"
    by simp
  show ?thesis
    using validateDatetimeGTE_missing_field [OF p1 m1]
      validateDatetimeGTE_missing_field [OF p2 m2] m
    by simp
qed

section \<open>The layouts of the date rule\<close>

lemma nextStdChunk_suffix:
  "nextStdChunk l = (p, st, suf) \<Longrightarrow> \<exists>k. suf = drop k l"
proof (induction l arbitrary: p st suf)
  case Nil
  then show ?case by simp
next
  case (Cons c cs)
  have dw: "\<exists>k. dropWhile (\<lambda>d. d = CHR ''0'') cs = drop k cs"
    by (metis dropWhile_eq_drop)
  have step: "\<And>k. \<exists>j. drop k cs = drop j (c # cs)"
  proof -
    fix k
    have "drop k cs = drop (Suc k) (c # cs)" by simp
    then show "\<exists>j. drop k cs = drop j (c # cs)" by blast
  qed
  from Cons.prems show ?case
  proof (simp split: if_splits prod.splits del: take_Suc_Cons)
  qed (use step dw Cons.IH in \<open>metis+\<close>)
qed

lemma parseStd_zone:
  assumes "parseStd st lay f v = Some (f', v')" and "st \<noteq> stdISO8601ColonTZ"
  shows "z f' = z f \<and> zoneOffset f' = zoneOffset f"
  using assms
  by (cases st)
     (auto simp add: parseStd_def Let_def
        split: option.splits if_splits list.splits prod.splits std.splits)

lemma parseLoop_zone:
  "(\<forall>k. fst (snd (nextStdChunk (drop k layout))) \<noteq> stdISO8601ColonTZ) \<Longrightarrow>
   parseLoop layout v f = Some f' \<Longrightarrow> z f' = z f \<and> zoneOffset f' = zoneOffset f"
proof (induction layout v f rule: parseLoop.induct)
  case (1 layout v f)
  obtain prefix st suffix where ch: "nextStdChunk layout = (prefix, st, suffix)"
    by (cases "nextStdChunk layout") auto
  from "1.prems"(1) [rule_format, of 0] ch have notz: "st \<noteq> stdISO8601ColonTZ" by simp
  obtain k where k: "suffix = drop k layout"
    using nextStdChunk_suffix [OF ch] by blast
  have sufz: "\<forall>j. fst (snd (nextStdChunk (drop j suffix))) \<noteq> stdISO8601ColonTZ"
    using "1.prems"(1) k by simp
  from "1.prems"(2) obtain v' where sk: "skip v prefix = Some v'"
    by (subst (asm) parseLoop.simps) (auto simp add: ch split: option.splits)
  show ?case
  proof (cases "st = stdNone")
    case True
    with "1.prems"(2) ch sk show ?thesis
      by (subst (asm) parseLoop.simps) (auto split: if_splits)
  next
    case False
    with "1.prems"(2) ch sk obtain f1 v1 where
      ps: "parseStd st suffix f v' = Some (f1, v1)" and rest: "parseLoop suffix v1 f1 = Some f'"
      by (subst (asm) parseLoop.simps) (auto split: option.splits)
    have "z f' = z f1 \<and> zoneOffset f' = zoneOffset f1"
      using "1.IH" [OF ch [symmetric] refl sk False ps refl sufz rest] .
    with parseStd_zone [OF ps notz] show ?thesis by simp
  qed
qed

lemma noZone_check:
  assumes "list_all (\<lambda>k. fst (snd (nextStdChunk (drop k layout))) \<noteq> stdISO8601ColonTZ)
             [0..<Suc (length layout)]"
  shows "\<forall>k. fst (snd (nextStdChunk (drop k layout))) \<noteq> stdISO8601ColonTZ"
proof
  fix k
  show "fst (snd (nextStdChunk (drop k layout))) \<noteq> stdISO8601ColonTZ"
  proof (cases "k \<le> length layout")
    case True
    with assms show ?thesis by (cases "k = length layout") (auto simp add: list_all_iff)
  next
    case False
    then show ?thesis by simp
  qed
qed

lemma tl_layouts_noZone:
  "list_all (\<lambda>l. list_all (\<lambda>k. fst (snd (nextStdChunk (drop k l))) \<noteq> stdISO8601ColonTZ)
                   [0..<Suc (length l)]) (tl layouts)"
  by code_simp

lemma Parse_noZone:
  assumes "l \<in> set (tl layouts)" and "Parse l s = Some t"
  shows "\<exists>f. parseLoop l s zeroFields = Some f
           \<and> t = Date (year f) (if month f < 0 then 1 else month f)
                      (if day f < 0 then 1 else day f)
                      (hour f) (minute f) (sec f) (nsecs f) UTC"
proof -
  from assms(1) tl_layouts_noZone
  have "list_all (\<lambda>k. fst (snd (nextStdChunk (drop k l))) \<noteq> stdISO8601ColonTZ)
          [0..<Suc (length l)]"
    by (simp add: list_all_iff)
  then have nz: "\<forall>k. fst (snd (nextStdChunk (drop k l))) \<noteq> stdISO8601ColonTZ"
    by (rule noZone_check)
  from assms(2) obtain f where f: "parseLoop l s zeroFields = Some f"
    by (auto simp add: Parse_def split: option.splits)
  from parseLoop_zone [OF nz f] have zz: "z f = None \<and> zoneOffset f = - 1"
    by (simp add: zeroFields_def)
  with assms(2) f show ?thesis
    by (auto simp add: Parse_def Let_def split: if_splits)
qed

lemma skip_suffix: "skip v p = Some v' \<Longrightarrow> \<exists>pre. v = pre @ v'"
proof (induction v p rule: skip.induct)
  case (1 v)
  then show ?case by simp
next
  case (2 v p ps)
  show ?case
  proof (cases "p = CHR '' ''")
    case True
    with "2.prems" have ok: "\<not> (v \<noteq> [] \<and> hd v \<noteq> CHR '' '')"
      and r: "skip (dropWhile (\<lambda>c. c = CHR '' '') v) (dropWhile (\<lambda>c. c = CHR '' '') ps) = Some v'"
      by (auto split: if_splits)
    from "2.IH"(1) [OF True ok r] obtain pre where "dropWhile (\<lambda>c. c = CHR '' '') v = pre @ v'"
      by blast
    then have "v = (takeWhile (\<lambda>c. c = CHR '' '') v @ pre) @ v'"
      by (metis append.assoc takeWhile_dropWhile_id)
    then show ?thesis by blast
  next
    case False
    with "2.prems" obtain c cs where v: "v = c # cs" and c: "c = p" and r: "skip cs ps = Some v'"
      by (auto split: list.splits if_splits)
    from "2.IH"(2) [OF False v _ r] c obtain pre where "cs = pre @ v'" by auto
    with v have "v = (c # pre) @ v'" by simp
    then show ?thesis by blast
  qed
qed

lemma getnum_suffix: "getnum v fixed = Some (n, v') \<Longrightarrow> \<exists>pre. v = pre @ v'"
  by (auto simp add: getnum_def split: list.splits if_splits)

lemma drop_suffix: "\<exists>pre. v = pre @ drop n v"
  by (metis append_take_drop_id)

lemma parseStd_suffix:
  assumes "parseStd st lay f v = Some (f', v')"
  shows "\<exists>pre. v = pre @ v'"
proof (cases st)
  case stdNone
  with assms show ?thesis by (simp add: parseStd_def)
next
  case stdLongYear
  with assms have "v' = drop 4 v"
    by (auto simp add: parseStd_def split: list.splits if_splits option.splits)
  then show ?thesis using drop_suffix by blast
next
  case stdZeroMonth
  with assms obtain n where "getnum v True = Some (n, v')"
    by (auto simp add: parseStd_def split: option.splits if_splits)
  then show ?thesis by (rule getnum_suffix)
next
  case stdZeroDay
  with assms obtain n where "getnum v True = Some (n, v')"
    by (auto simp add: parseStd_def split: option.splits if_splits)
  then show ?thesis by (rule getnum_suffix)
next
  case stdHour
  with assms obtain n where "getnum v False = Some (n, v')"
    by (auto simp add: parseStd_def split: option.splits if_splits)
  then show ?thesis by (rule getnum_suffix)
next
  case stdZeroMinute
  with assms obtain n where "getnum v True = Some (n, v')"
    by (auto simp add: parseStd_def split: option.splits if_splits)
  then show ?thesis by (rule getnum_suffix)
next
  case stdZeroSecond
  with assms have "\<exists>n v1. getnum v True = Some (n, v1)
           \<and> (v' = v1 \<or> v' = drop (2 + length (takeWhile isDigit (drop 2 v1))) v1)"
    by (auto simp add: parseStd_def Let_def split: option.splits if_splits std.splits)
  then obtain n v1 where g: "getnum v True = Some (n, v1)"
    and "v' = v1 \<or> v' = drop (2 + length (takeWhile isDigit (drop 2 v1))) v1"
    by blast
  then have "\<exists>pre. v1 = pre @ v'" using drop_suffix by auto
  with getnum_suffix [OF g] show ?thesis by (metis append.assoc)
next
  case (stdFracSecond0 k)
  with assms have "v' = drop (1 + k) v"
    by (auto simp add: parseStd_def Let_def split: option.splits if_splits)
  then show ?thesis using drop_suffix by blast
next
  case stdISO8601ColonTZ
  with assms have "v' = drop 1 v \<or> v' = drop 6 v"
    by (auto simp add: parseStd_def Let_def split: option.splits if_splits)
  then show ?thesis using drop_suffix by blast
qed

lemma parseLoop_step:
  assumes "parseLoop layout v f = Some f'"
      and "nextStdChunk layout = (prefix, st, suffix)" and "st \<noteq> stdNone"
  shows "\<exists>pre v'' f''. v = pre @ v'' \<and> parseLoop suffix v'' f'' = Some f'"
proof -
  from assms obtain v1 f2 v2 where sk: "skip v prefix = Some v1"
    and ps: "parseStd st suffix f v1 = Some (f2, v2)" and r: "parseLoop suffix v2 f2 = Some f'"
    by (subst (asm) parseLoop.simps) (auto split: option.splits)
  from skip_suffix [OF sk] parseStd_suffix [OF ps] obtain p1 p2 where "v = (p1 @ p2) @ v2"
    by auto
  with r show ?thesis by blast
qed

lemma parseLoop_Z: "parseLoop ''Z'' v f = Some f' \<Longrightarrow> v = ''Z''"
  by (subst (asm) parseLoop.simps) (auto split: option.splits if_splits list.splits)

lemma Parse_second_layout_Z:
  assumes "Parse ''2006-01-02T15:04Z'' s = Some t"
  shows "\<exists>pre. s = pre @ ''Z''"
proof -
  from assms obtain f0 where "parseLoop ''2006-01-02T15:04Z'' s zeroFields = Some f0"
    by (auto simp add: Parse_def split: option.splits)
  from parseLoop_step [OF this, of "[]" stdLongYear "''-01-02T15:04Z''"]
  obtain p1 v1 f1 where s1: "s = p1 @ v1" and l1: "parseLoop ''-01-02T15:04Z'' v1 f1 = Some f0"
    by auto
  from parseLoop_step [OF l1, of "''-''" stdZeroMonth "''-02T15:04Z''"]
  obtain p2 v2 f2 where s2: "v1 = p2 @ v2" and l2: "parseLoop ''-02T15:04Z'' v2 f2 = Some f0"
    by auto
  from parseLoop_step [OF l2, of "''-''" stdZeroDay "''T15:04Z''"]
  obtain p3 v3 f3 where s3: "v2 = p3 @ v3" and l3: "parseLoop ''T15:04Z'' v3 f3 = Some f0"
    by auto
  from parseLoop_step [OF l3, of "''T''" stdHour "'':04Z''"]
  obtain p4 v4 f4 where s4: "v3 = p4 @ v4" and l4: "parseLoop '':04Z'' v4 f4 = Some f0"
    by auto
  from parseLoop_step [OF l4, of "'':''" stdZeroMinute "''Z''"]
  obtain p5 v5 f5 where s5: "v4 = p5 @ v5" and l5: "parseLoop ''Z'' v5 f5 = Some f0"
    by auto
  from parseLoop_Z [OF l5] s1 s2 s3 s4 s5 have "s = (p1 @ p2 @ p3 @ p4 @ p5) @ ''Z''"
    by simp
  then show ?thesis by blast
qed


lemma layouts_list:
  "layouts =
     [''2006-01-02T15:04:05Z07:00'', ''2006-01-02T15:04Z'', ''2006-01-02T15:04:05Z'',
      ''2006-01-02T15:04:05.000Z'', ''2006-01-02T15:04:05'', ''2006-01-02 15:04'',
      ''2006-01-02 15:04:05'', ''2006-01-02 15:04:05.000'', ''2006-01-02'']"
  by (simp add: layouts_def defaultFormat_def DateTimeZeroFormat_def MilisecondsFormat_def)

lemma find_10_00_Z:
  "find (\<lambda>l. Parse l ''2022-01-01T10:00Z'' \<noteq> None) layouts = Some ''2006-01-02T15:04Z''"
  by code_simp

lemma Parse_10_00_Z:
  "Parse ''2006-01-02T15:04Z'' ''2022-01-01T10:00Z''
     = Some \<lparr>abs_sec = 63776628000, nsec = 0, loc = UTC\<rparr>"
  by code_simp

lemma Date_10_00: "Date 2022 1 1 10 0 0 0 UTC = \<lparr>abs_sec = 63776628000, nsec = 0, loc = UTC\<rparr>"
  by code_simp

text \<open>
  C4, as the validator has it. \<open>parseToUTCTime\<close> tries the nine layouts in the order of
  the list below and returns the time of the first that parses the string, in UTC: the
  offset-aware RFC 3339 layout, then \<open>YYYY-MM-DDTHH:MMZ\<close>, then \<open>YYYY-MM-DDTHH:MM:SSZ\<close>,
  the millisecond \<open>Z\<close> variant, \<open>YYYY-MM-DDTHH:MM:SS\<close>, the three layouts with a space,
  and the bare date. The \<open>Z\<close> of the second layout is literal text: a string that it
  parses ends in \<open>Z\<close>. Every layout but the first has no zone element, and what it
  parses is the date and time read from the string, taken in UTC.
\<close>

theorem parseToUTCTime_layout_order:
  "layouts =
     [''2006-01-02T15:04:05Z07:00'', ''2006-01-02T15:04Z'', ''2006-01-02T15:04:05Z'',
      ''2006-01-02T15:04:05.000Z'', ''2006-01-02T15:04:05'', ''2006-01-02 15:04'',
      ''2006-01-02 15:04:05'', ''2006-01-02 15:04:05.000'', ''2006-01-02'']
   \<and> parseToUTCTime s =
       (case find (\<lambda>l. Parse l s \<noteq> None) layouts of
          None \<Rightarrow> Inl (''invalid date format: '' @ s)
        | Some l \<Rightarrow> Inr \<lparr>utc_Time = Time_UTC (the (Parse l s))\<rparr>)
   \<and> (Parse ''2006-01-02T15:04Z'' s \<noteq> None \<longrightarrow> (\<exists>pre. s = pre @ ''Z''))
   \<and> (l \<in> set (tl layouts) \<and> Parse l s = Some t \<longrightarrow>
         (\<exists>f. parseLoop l s zeroFields = Some f
             \<and> t = Date (year f) (if month f < 0 then 1 else month f)
                        (if day f < 0 then 1 else day f)
                        (hour f) (minute f) (sec f) (nsecs f) UTC))"
proof -
  have b: "parseToUTCTime s =
       (case find (\<lambda>l. Parse l s \<noteq> None) layouts of
          None \<Rightarrow> Inl (''invalid date format: '' @ s)
        | Some l \<Rightarrow> Inr \<lparr>utc_Time = Time_UTC (the (Parse l s))\<rparr>)"
    by (simp only: parseToUTCTime_def parseToUTCTime_layouts_find)
  have c: "Parse ''2006-01-02T15:04Z'' s \<noteq> None \<longrightarrow> (\<exists>pre. s = pre @ ''Z'')"
    using Parse_second_layout_Z by blast
  have d: "l \<in> set (tl layouts) \<and> Parse l s = Some t \<longrightarrow>
         (\<exists>f. parseLoop l s zeroFields = Some f
             \<and> t = Date (year f) (if month f < 0 then 1 else month f)
                        (if day f < 0 then 1 else day f)
                        (hour f) (minute f) (sec f) (nsecs f) UTC)"
    using Parse_noZone by blast
  from layouts_list b c d show ?thesis by blast
qed

theorem parseToUTCTime_layout_order_witness:
  "find (\<lambda>l. Parse l ''2022-01-01T10:00Z'' \<noteq> None) layouts = Some ''2006-01-02T15:04Z''
   \<and> parseToUTCTime ''2022-01-01T10:00Z''
       = Inr \<lparr>utc_Time = \<lparr>abs_sec = 63776628000, nsec = 0, loc = UTC\<rparr>\<rparr>
   \<and> Parse ''2006-01-02T15:04Z'' ''2022-01-01T10:00Z'' \<noteq> None
   \<and> (\<exists>pre. ''2022-01-01T10:00Z'' = pre @ ''Z'')
   \<and> ''2006-01-02T15:04Z'' \<in> set (tl layouts)
   \<and> Parse ''2006-01-02T15:04Z'' ''2022-01-01T10:00Z'' = Some (Date 2022 1 1 10 0 0 0 UTC)"
proof -
  note t = parseToUTCTime_layout_order
    [of "''2022-01-01T10:00Z''" "''2006-01-02T15:04Z''" "Date 2022 1 1 10 0 0 0 UTC"]
  from t have a: "parseToUTCTime ''2022-01-01T10:00Z'' =
       (case find (\<lambda>l. Parse l ''2022-01-01T10:00Z'' \<noteq> None) layouts of
          None \<Rightarrow> Inl (''invalid date format: '' @ ''2022-01-01T10:00Z'')
        | Some l \<Rightarrow> Inr \<lparr>utc_Time = Time_UTC (the (Parse l ''2022-01-01T10:00Z''))\<rparr>)"
    by (rule conjunct1 [OF conjunct2])
  have r: "parseToUTCTime ''2022-01-01T10:00Z''
       = Inr \<lparr>utc_Time = \<lparr>abs_sec = 63776628000, nsec = 0, loc = UTC\<rparr>\<rparr>"
    unfolding a find_10_00_Z by (simp add: Parse_10_00_Z Time_UTC_def)
  have pn: "Parse ''2006-01-02T15:04Z'' ''2022-01-01T10:00Z'' \<noteq> None"
    by (simp add: Parse_10_00_Z)
  from t pn have z: "\<exists>pre. ''2022-01-01T10:00Z'' = pre @ ''Z''"
    by blast
  have m: "''2006-01-02T15:04Z'' \<in> set (tl layouts)"
    unfolding layouts_list by simp
  have pd: "Parse ''2006-01-02T15:04Z'' ''2022-01-01T10:00Z'' = Some (Date 2022 1 1 10 0 0 0 UTC)"
    by (simp add: Parse_10_00_Z Date_10_00)
  from find_10_00_Z r pn z m pd show ?thesis
    by blast
qed

theorem parseToUTCTime_layout_order_counterexample:
  "Parse (layouts ! 1) ''2022-01-01T10:00'' = None
   \<and> parseToUTCTime ''2022-01-01T10:00'' = Inl ''invalid date format: 2022-01-01T10:00''"
  by code_simp

section \<open>The decimal rule\<close>

lemma matches_Digit_iff: "matches Digit s \<longleftrightarrow> (\<exists>c. s = [c] \<and> isDigit c)"
  by (auto simp add: matches.simps(1) split: list.splits)

lemma matches_Cat_iff:
  "matches (Cat r1 r2) s \<longleftrightarrow> (\<exists>u v. s = u @ v \<and> matches r1 u \<and> matches r2 v)"
proof
  assume "matches (Cat r1 r2) s"
  then have "\<exists>i \<in> set [0..<Suc (length s)]. matches r1 (take i s) \<and> matches r2 (drop i s)"
    by (simp only: matches.simps(3) list_ex_iff)
  then obtain i where "matches r1 (take i s)" and "matches r2 (drop i s)"
    by blast
  moreover have "s = take i s @ drop i s" by simp
  ultimately show "\<exists>u v. s = u @ v \<and> matches r1 u \<and> matches r2 v" by blast
next
  assume "\<exists>u v. s = u @ v \<and> matches r1 u \<and> matches r2 v"
  then obtain u v where s: "s = u @ v" and u: "matches r1 u" and v: "matches r2 v" by blast
  have "length u \<in> set [0..<Suc (length s)]" using s by simp
  moreover have "matches r1 (take (length u) s) \<and> matches r2 (drop (length u) s)"
    using s u v by simp
  ultimately show "matches (Cat r1 r2) s"
    unfolding matches.simps(3) list_ex_iff by blast
qed

lemma matches_Star_Digit_Cons:
  "matches (Star Digit) (c # cs) \<longleftrightarrow> isDigit c \<and> matches (Star Digit) cs"
proof
  assume "matches (Star Digit) (c # cs)"
  then have "\<exists>i \<in> set [1..<Suc (length (c # cs))].
                matches Digit (take i (c # cs)) \<and> matches (Star Digit) (drop i (c # cs))"
    by (simp only: matches.simps(6) list_ex_iff)
  then obtain i where iset: "i \<in> set [1..<Suc (length (c # cs))]"
      and d: "matches Digit (take i (c # cs))" and r: "matches (Star Digit) (drop i (c # cs))"
    by blast
  from iset have i: "1 \<le> i" "i \<le> length (c # cs)"
    by (simp_all only: set_upt atLeastLessThan_iff less_Suc_eq_le)
  from d obtain x where x: "take i (c # cs) = [x]" "isDigit x"
    by (auto simp add: matches_Digit_iff)
  from x(1) i have "i = 1"
    by (metis One_nat_def length_Cons length_take list.size(3) min.absorb2)
  with x r show "isDigit c \<and> matches (Star Digit) cs" by simp
next
  assume a: "isDigit c \<and> matches (Star Digit) cs"
  have "1 \<in> set [1..<Suc (length (c # cs))]"
    by (simp only: set_upt atLeastLessThan_iff) simp
  moreover have "matches Digit (take 1 (c # cs)) \<and> matches (Star Digit) (drop 1 (c # cs))"
    using a by (simp add: matches_Digit_iff)
  ultimately have
    "list_ex (\<lambda>i. matches Digit (take i (c # cs)) \<and> matches (Star Digit) (drop i (c # cs)))
       [1..<Suc (length (c # cs))]"
    unfolding list_ex_iff by blast
  then show "matches (Star Digit) (c # cs)"
    by (simp only: matches.simps(6))
qed

lemma matches_Star_Digit_iff: "matches (Star Digit) s \<longleftrightarrow> list_all isDigit s"
proof (induction s)
  case Nil
  show ?case by (simp add: matches.simps(5))
next
  case (Cons c cs)
  then show ?case by (simp add: matches_Star_Digit_Cons)
qed

lemma matches_two_digits:
  "matches (Cat Digit Digit) s \<longleftrightarrow> (\<exists>a b. s = [a, b] \<and> isDigit a \<and> isDigit b)"
proof
  assume "matches (Cat Digit Digit) s"
  then show "\<exists>a b. s = [a, b] \<and> isDigit a \<and> isDigit b"
    by (auto simp add: matches_Cat_iff matches_Digit_iff)
next
  assume "\<exists>a b. s = [a, b] \<and> isDigit a \<and> isDigit b"
  then obtain a b where "s = [a] @ [b]" "matches Digit [a]" "matches Digit [b]"
    by (auto simp add: matches_Digit_iff)
  then show "matches (Cat Digit Digit) s"
    unfolding matches_Cat_iff by blast
qed

lemma matches_int_dot:
  "matches (Cat (Star Digit) (Lit (CHR ''.''))) s
     \<longleftrightarrow> (\<exists>ds. s = ds @ ''.'' \<and> list_all isDigit ds)"
  by (auto simp add: matches_Cat_iff matches_Star_Digit_iff matches.simps(2))

lemma matches_decimal:
  "matches regexForValidDecimalValues s \<longleftrightarrow>
     (\<exists>a b. isDigit a \<and> isDigit b
        \<and> (s = [a, b] \<or> (\<exists>ds. list_all isDigit ds \<and> s = ds @ ''.'' @ [a, b])))"
  (is "?L \<longleftrightarrow> ?R")
proof
  assume ?L
  then obtain u v where s: "s = u @ v"
      and u: "matches (Opt (Cat (Star Digit) (Lit (CHR ''.'')))) u"
      and v: "matches (Cat Digit Digit) v"
    unfolding regexForValidDecimalValues_def matches_Cat_iff [of "Opt _"] by blast
  from v obtain a b where ab: "v = [a, b]" "isDigit a" "isDigit b"
    by (auto simp add: matches_two_digits)
  from u have "u = [] \<or> (\<exists>ds. u = ds @ ''.'' \<and> list_all isDigit ds)"
    by (simp add: matches.simps(4) matches_int_dot)
  with s ab show ?R by auto
next
  assume ?R
  then obtain a b where ab: "isDigit a" "isDigit b"
      and c: "s = [a, b] \<or> (\<exists>ds. list_all isDigit ds \<and> s = ds @ ''.'' @ [a, b])"
    by blast
  have v: "matches (Cat Digit Digit) [a, b]"
    using ab by (auto simp add: matches_two_digits)
  from c obtain u where
    u: "s = u @ [a, b]" "u = [] \<or> (\<exists>ds. u = ds @ ''.'' \<and> list_all isDigit ds)"
    by auto
  from u(2) have "matches (Opt (Cat (Star Digit) (Lit (CHR ''.'')))) u"
    by (simp add: matches.simps(4) matches_int_dot)
  with v u(1) show ?L
    unfolding regexForValidDecimalValues_def matches_Cat_iff [of "Opt _"] by blast
qed

lemma decimal_rejected:
  "\<not> validDecimalValue (decimalFieldLevel ''123.000'')"
  "\<not> validDecimalValue (decimalFieldLevel ''1234'')"
  "\<not> validDecimalValue (decimalFieldLevel ''-1.00'')"
  "\<not> validDecimalValue (decimalFieldLevel ''1,000.00'')"
  by code_simp+

text \<open>
  C6, as the validator has it. The decimal rule passes exactly the strings that are two
  digits, or a possibly empty run of digits, one dot and two digits: the integer part is
  accepted only together with the dot. So \<open>12\<close>, \<open>.12\<close> and \<open>12.34\<close> pass; \<open>1234\<close> and
  \<open>123.000\<close> fail, and so does any string with a sign or a thousands separator.
\<close>

theorem validDecimalValue_iff:
  "validDecimalValue fl \<longleftrightarrow>
     (\<exists>a b. isDigit a \<and> isDigit b
        \<and> (Value_String (fl_Field fl) = [a, b]
           \<or> (\<exists>ds. list_all isDigit ds \<and> Value_String (fl_Field fl) = ds @ ''.'' @ [a, b])))"
  by (simp only: validDecimalValue_def MatchString_def decimalValuesRegex_def matches_decimal)

theorem validDecimalValue_iff_witness:
  "validDecimalValue (decimalFieldLevel ''12.34'')
   \<and> validDecimalValue (decimalFieldLevel ''12'')
   \<and> validDecimalValue (decimalFieldLevel ''.12'')
   \<and> \<not> validDecimalValue (decimalFieldLevel ''123.000'')
   \<and> \<not> validDecimalValue (decimalFieldLevel ''1234'')"
proof -
  have v: "\<And>x. Value_String (fl_Field (decimalFieldLevel x)) = x"
    by (simp add: decimalFieldLevel_def Value_String_def)
  have d: "isDigit (CHR ''1'')" "isDigit (CHR ''2'')" "isDigit (CHR ''3'')" "isDigit (CHR ''4'')"
    by (simp_all add: isDigit_def)
  have a: "validDecimalValue (decimalFieldLevel ''12.34'')"
  proof -
    have "list_all isDigit ''12'' \<and> ''12.34'' = ''12'' @ ''.'' @ [CHR ''3'', CHR ''4'']"
      using d by simp
    with d show ?thesis
      unfolding validDecimalValue_iff [of "decimalFieldLevel ''12.34''"] v by blast
  qed
  have b: "validDecimalValue (decimalFieldLevel ''12'')"
  proof -
    have "''12'' = [CHR ''1'', CHR ''2'']" by simp
    with d show ?thesis
      unfolding validDecimalValue_iff [of "decimalFieldLevel ''12''"] v by blast
  qed
  have c: "validDecimalValue (decimalFieldLevel ''.12'')"
  proof -
    have "list_all isDigit [] \<and> ''.12'' = [] @ ''.'' @ [CHR ''1'', CHR ''2'']"
      by simp
    with d show ?thesis
      unfolding validDecimalValue_iff [of "decimalFieldLevel ''.12''"] v by blast
  qed
  from a b c decimal_rejected show ?thesis by simp
qed

theorem validDecimalValue_counterexample:
  "matches decimalWording ''1234'' \<and> \<not> validDecimalValue (decimalFieldLevel ''1234'')"
  by code_simp

end
